theory Spec2Isabelle
  imports Complex_Main "HOL-Library.AList"
begin

section \<open>Python values\<close>

text \<open>
  A Python \<open>float\<close> is an IEEE double: a finite value (kept as the rational number it
  denotes; \<open>-0.0\<close> and \<open>0.0\<close> compare equal and are both \<open>Float 0\<close>), an infinity or
  not-a-number.
\<close>

datatype pyfloat = Float rat | PosInf | NegInf | NaN

text \<open>
  The values a stored document or a request body can hold: the JSON values, nested,
  and the store's \<open>ObjectId\<close>, a 96-bit identifier kept as a number and printed as
  24 hexadecimal digits.
\<close>

datatype pyval =
    PNone
  | PBool bool
  | PInt int
  | PFloat pyfloat
  | PStr string
  | PList "pyval list"
  | PDict "(string \<times> pyval) list"
  | PObjectId nat

type_synonym document = "string \<rightharpoonup> pyval"

text \<open>
  The exceptions the program can meet. \<open>HTTPException status_code detail\<close> is
  FastAPI's; the source always builds it with \<open>detail=str(e)\<close>, and the model keeps
  the exception \<open>e\<close> whose text that is.
\<close>

datatype exn =
    TypeError
  | ValueError
  | OverflowError
  | AttributeError
  | ValidationError
  | InvalidId
  | StoreUnavailable
  | StoreReadError string
  | StoreWriteError string
  | HTTPException nat exn

text \<open>
  Two conversions of the interpreter are taken as parameters, since nothing in the
  program depends on how they are computed: \<open>float(s)\<close> on a string (\<open>None\<close> when it
  raises \<open>ValueError\<close>) and the \<open>repr\<close> text of floats and containers.
\<close>

record builtins =
  float_of_str :: "string \<Rightarrow> pyfloat option"
  repr_of :: "pyval \<Rightarrow> string"

subsection \<open>\<open>bool(v)\<close>: truthiness\<close>

fun py_bool :: "pyval \<Rightarrow> bool" where
  "py_bool PNone = False"
| "py_bool (PBool b) = b"
| "py_bool (PInt i) = (i \<noteq> 0)"
| "py_bool (PFloat f) = (f \<noteq> Float 0)"
| "py_bool (PStr s) = (s \<noteq> [])"
| "py_bool (PList xs) = (xs \<noteq> [])"
| "py_bool (PDict kvs) = (kvs \<noteq> [])"
| "py_bool (PObjectId n) = True"

text \<open>\<open>a or b\<close>: \<open>a\<close> when it is truthy, else \<open>b\<close>.\<close>

definition py_or :: "pyval \<Rightarrow> pyval \<Rightarrow> pyval" where
  "py_or a b = (if py_bool a then a else b)"

subsection \<open>\<open>float(v)\<close>\<close>

text \<open>
  \<open>float(i)\<close> on an integer rounds to 53 significant bits, ties to even, and raises
  \<open>OverflowError\<close> when the rounded value does not fit a double.
\<close>

fun bitlen :: "nat \<Rightarrow> nat" where
  "bitlen n = (if n = 0 then 0 else Suc (bitlen (n div 2)))"

definition round53 :: "nat \<Rightarrow> nat" where
  "round53 n =
     (let e = bitlen n - 53; m = n div 2 ^ e; r = n mod 2 ^ e
      in if e = 0 then n
         else if 2 ^ e < 2 * r \<or> (2 * r = 2 ^ e \<and> odd m) then (m + 1) * 2 ^ e
         else m * 2 ^ e)"

definition float_of_int :: "int \<Rightarrow> exn + pyfloat" where
  "float_of_int i =
     (let v = round53 (nat \<bar>i\<bar>)
      in if 2 ^ 1024 \<le> v then Inl OverflowError
         else Inr (Float (of_int (sgn i * int v))))"

fun py_float :: "builtins \<Rightarrow> pyval \<Rightarrow> exn + pyfloat" where
  "py_float rt PNone = Inl TypeError"
| "py_float rt (PBool b) = Inr (Float (if b then 1 else 0))"
| "py_float rt (PInt i) = float_of_int i"
| "py_float rt (PFloat f) = Inr f"
| "py_float rt (PStr s) =
     (case float_of_str rt s of None \<Rightarrow> Inl ValueError | Some f \<Rightarrow> Inr f)"
| "py_float rt (PList xs) = Inl TypeError"
| "py_float rt (PDict kvs) = Inl TypeError"
| "py_float rt (PObjectId n) = Inl TypeError"

subsection \<open>\<open>str(v)\<close>\<close>

definition digit_char :: "nat \<Rightarrow> char" where
  "digit_char d = ''0123456789abcdef'' ! d"

fun dec_of_nat :: "nat \<Rightarrow> string" where
  "dec_of_nat n =
     (if n < 10 then [digit_char n] else dec_of_nat (n div 10) @ [digit_char (n mod 10)])"

text \<open>The text of an \<open>ObjectId\<close>: \<open>w\<close> hexadecimal digits, most significant first.\<close>

fun hex_width :: "nat \<Rightarrow> nat \<Rightarrow> string" where
  "hex_width 0 n = []"
| "hex_width (Suc w) n = hex_width w (n div 16) @ [digit_char (n mod 16)]"

definition oid_str :: "nat \<Rightarrow> string" where
  "oid_str n = hex_width 24 n"

fun py_str :: "builtins \<Rightarrow> pyval \<Rightarrow> string" where
  "py_str rt PNone = ''None''"
| "py_str rt (PBool b) = (if b then ''True'' else ''False'')"
| "py_str rt (PInt i) = (if i < 0 then ''-'' @ dec_of_nat (nat (- i)) else dec_of_nat (nat i))"
| "py_str rt (PStr s) = s"
| "py_str rt (PObjectId n) = oid_str n"
| "py_str rt v = repr_of rt v"

subsection \<open>\<open>ObjectId(s)\<close>\<close>

text \<open>
  bson's constructor accepts exactly 24 hexadecimal digits, in either case, and
  raises \<open>InvalidId\<close> on any other string.
\<close>

definition hex_val :: "char \<Rightarrow> nat option" where
  "hex_val c =
     (let k = of_char c :: nat
      in if 48 \<le> k \<and> k \<le> 57 then Some (k - 48)
         else if 97 \<le> k \<and> k \<le> 102 then Some (k - 87)
         else if 65 \<le> k \<and> k \<le> 70 then Some (k - 55)
         else None)"

fun unhex :: "nat \<Rightarrow> string \<Rightarrow> nat option" where
  "unhex acc [] = Some acc"
| "unhex acc (c # cs) =
     (case hex_val c of None \<Rightarrow> None | Some d \<Rightarrow> unhex (16 * acc + d) cs)"

definition ObjectId :: "string \<Rightarrow> exn + pyval" where
  "ObjectId s =
     (if length s = 24
      then (case unhex 0 s of None \<Rightarrow> Inl InvalidId | Some n \<Rightarrow> Inr (PObjectId n))
      else Inl InvalidId)"

section \<open>The request and response models\<close>

text \<open>
  \<open>ProductCreate\<close> and \<open>ProductOut\<close>, the pydantic models of the source.
  \<open>ProductOut\<close> extends \<open>ProductCreate\<close> by the field \<open>id\<close>.
\<close>

record ProductCreate =
  title :: string
  description :: "string option"
  price :: pyfloat
  category :: string
  in_stock :: bool
  image' :: "string option"
  colors :: "string list option"

record ProductOut = ProductCreate +
  id' :: string

text \<open>The constraint \<open>ge=0\<close> of the field \<open>price\<close>: \<open>price >= 0\<close> on floats.\<close>

fun float_ge0 :: "pyfloat \<Rightarrow> bool" where
  "float_ge0 (Float q) = (0 \<le> q)"
| "float_ge0 PosInf = True"
| "float_ge0 NegInf = False"
| "float_ge0 NaN = False"

text \<open>
  What pydantic accepts for a field of each declared type, on the values above:
  \<open>str\<close> takes a string, \<open>Optional[str]\<close> a string or \<open>None\<close>,
  \<open>Optional[List[str]]\<close> a list of strings or \<open>None\<close>. The result \<open>None\<close> is a
  validation error.
\<close>

fun v_str :: "pyval \<Rightarrow> string option" where
  "v_str (PStr s) = Some s"
| "v_str v = None"

fun v_opt_str :: "pyval \<Rightarrow> string option option" where
  "v_opt_str PNone = Some None"
| "v_opt_str (PStr s) = Some (Some s)"
| "v_opt_str v = None"

fun v_str_list :: "pyval list \<Rightarrow> string list option" where
  "v_str_list [] = Some []"
| "v_str_list (x # xs) =
     (case v_str x of None \<Rightarrow> None
      | Some s \<Rightarrow> (case v_str_list xs of None \<Rightarrow> None | Some ss \<Rightarrow> Some (s # ss)))"

fun v_opt_str_list :: "pyval \<Rightarrow> string list option option" where
  "v_opt_str_list PNone = Some None"
| "v_opt_str_list (PList xs) = map_option Some (v_str_list xs)"
| "v_opt_str_list v = None"

text \<open>
  The constructor call \<open>ProductOut(id=..., title=..., ...)\<close>. The arguments \<open>id\<close>,
  \<open>price\<close> and \<open>in_stock\<close> come out of \<open>str\<close>, \<open>float\<close> and \<open>bool\<close> and have
  their types; the others are whatever the document held. Any field that fails its
  validation, or a price that fails \<open>ge=0\<close>, raises \<open>ValidationError\<close>.
\<close>

definition ProductOut_init ::
  "string \<Rightarrow> pyval \<Rightarrow> pyval \<Rightarrow> pyfloat \<Rightarrow> pyval \<Rightarrow> bool \<Rightarrow> pyval \<Rightarrow> pyval \<Rightarrow> exn + ProductOut"
where
  "ProductOut_init i t d p c s im cs =
     (case (v_str t, v_opt_str d, v_str c, v_opt_str im, v_opt_str_list cs) of
        (Some t', Some d', Some c', Some im', Some cs') \<Rightarrow>
          if float_ge0 p
          then Inr \<lparr>title = t', description = d', price = p, category = c',
                    in_stock = s, image' = im', colors = cs', id' = i\<rparr>
          else Inl ValidationError
      | _ \<Rightarrow> Inl ValidationError)"

section \<open>Serialization\<close>

text \<open>\<open>doc.get(k)\<close> and \<open>doc.get(k, default)\<close>.\<close>

definition get :: "document \<Rightarrow> string \<Rightarrow> pyval" where
  "get doc k = (case doc k of None \<Rightarrow> PNone | Some v \<Rightarrow> v)"

definition get_default :: "document \<Rightarrow> string \<Rightarrow> pyval \<Rightarrow> pyval" where
  "get_default doc k d = (case doc k of None \<Rightarrow> d | Some v \<Rightarrow> v)"

text \<open>
  \<open>serialize_product\<close>: the arguments are evaluated in order, so \<open>float\<close> may raise
  before the model is built; then the constructor validates.
\<close>

definition serialize_product :: "builtins \<Rightarrow> document \<Rightarrow> exn + ProductOut" where
  "serialize_product rt doc =
     (case py_float rt (get_default doc ''price'' (PInt 0)) of
        Inl e \<Rightarrow> Inl e
      | Inr p \<Rightarrow>
          ProductOut_init
            (py_str rt (get doc ''_id''))
            (get_default doc ''title'' (PStr ''''))
            (get doc ''description'')
            p
            (get_default doc ''category'' (PStr ''streetwear''))
            (py_bool (get_default doc ''in_stock'' (PBool True)))
            (get doc ''image'')
            (py_or (get doc ''colors'') (PList [])))"

section \<open>The document store\<close>

text \<open>
  Modelled from the spec: the handle \<open>db\<close> of the module \<open>database\<close>, which is not
  among the sources. The spec: connectivity is established once from the environment; if
  it is unset the adapter is unavailable, and an operation can fail on the underlying
  store after a connection existed. So \<open>db\<close> is \<open>None\<close> when no connection was
  configured, else a database. A database holds its collections in creation order, each
  a list of documents in insertion order. \<open>read_fault\<close> and \<open>write_fault\<close> say whether
  the server fails the reads or the writes, and with what error text. \<open>name_attr\<close> is
  what reading the attribute \<open>name\<close> of the handle does.
\<close>

datatype attr = NoAttr | Attr string | AttrRaises string

record mongo_db =
  name_attr :: attr
  colls :: "(string \<times> document list) list"
  read_fault :: "string option"
  write_fault :: "string option"

type_synonym state = "mongo_db option"

text \<open>The driver calls the source makes on \<open>db\<close> itself.\<close>

definition coll :: "mongo_db \<Rightarrow> string \<Rightarrow> document list" where
  "coll d name = (case map_of (colls d) name of None \<Rightarrow> [] | Some docs \<Rightarrow> docs)"

definition count_documents :: "mongo_db \<Rightarrow> string \<Rightarrow> exn + nat" where
  "count_documents d name =
     (case read_fault d of
        Some msg \<Rightarrow> Inl (StoreReadError msg)
      | None \<Rightarrow> Inr (length (coll d name)))"

definition find_one :: "mongo_db \<Rightarrow> string \<Rightarrow> pyval \<Rightarrow> exn + document option" where
  "find_one d name oid =
     (case read_fault d of
        Some msg \<Rightarrow> Inl (StoreReadError msg)
      | None \<Rightarrow> Inr (find (\<lambda>doc. doc ''_id'' = Some oid) (coll d name)))"

text \<open>An exception of \<open>list_collection_names\<close> is given by its text, all the caller reads.\<close>

definition list_collection_names :: "mongo_db \<Rightarrow> string + string list" where
  "list_collection_names d =
     (case read_fault d of Some msg \<Rightarrow> Inl msg | None \<Rightarrow> Inr (map fst (colls d)))"

text \<open>
  Modelled from the spec: the newly generated unique identifier of an insert, which the
  absent module \<open>database\<close> takes from the store. It is one above every \<open>ObjectId\<close> of
  the collection, so unique in it.
\<close>

definition fresh_oid :: "document list \<Rightarrow> nat" where
  "fresh_oid docs =
     fold (\<lambda>doc m. case doc ''_id'' of Some (PObjectId n) \<Rightarrow> max m (Suc n) | _ \<Rightarrow> m) docs 0"

text \<open>
  Modelled from the spec: persisting a document into the named collection, for the absent
  \<open>create_document\<close>. The document goes to the end of the collection, which is created if
  it does not exist yet.
\<close>

definition store_insert :: "mongo_db \<Rightarrow> string \<Rightarrow> document \<Rightarrow> mongo_db" where
  "store_insert d name doc = d\<lparr>colls := AList.update name (coll d name @ [doc]) (colls d)\<rparr>"

text \<open>
  Modelled from the spec: \<open>create_document\<close> of the module \<open>database\<close>, which is not
  among the sources. The spec: it persists the document into the named collection and
  returns a newly generated unique identifier as a string; it fails with
  \<open>StoreUnavailable\<close> if no connection is established, or \<open>StoreWriteError\<close> on
  underlying failure.
\<close>

definition create_document :: "state \<Rightarrow> string \<Rightarrow> document \<Rightarrow> (exn + string) \<times> state" where
  "create_document st name data =
     (case st of
        None \<Rightarrow> (Inl StoreUnavailable, st)
      | Some d \<Rightarrow>
          (case write_fault d of
             Some msg \<Rightarrow> (Inl (StoreWriteError msg), st)
           | None \<Rightarrow>
               (let oid = fresh_oid (coll d name)
                in (Inr (oid_str oid),
                    Some (store_insert d name (data(''_id'' \<mapsto> PObjectId oid)))))))"

text \<open>
  Modelled from the spec: \<open>get_documents\<close> of the module \<open>database\<close>, which is not
  among the sources. The spec: it returns up to \<open>limit\<close> documents matching the filter
  (the empty filter, the only one the source passes, matches all), in store-defined
  order; it fails with \<open>StoreUnavailable\<close> or \<open>StoreReadError\<close> analogously.
\<close>

definition get_documents :: "state \<Rightarrow> string \<Rightarrow> int \<Rightarrow> exn + document list" where
  "get_documents st name limit =
     (case st of
        None \<Rightarrow> Inl StoreUnavailable
      | Some d \<Rightarrow>
          (case read_fault d of
             Some msg \<Rightarrow> Inl (StoreReadError msg)
           | None \<Rightarrow> Inr (take (nat limit) (coll d name))))"

section \<open>Seeding\<close>

definition seed_items :: "document list" where
  "seed_items =
     [ [''title'' \<mapsto> PStr ''Neon Graffiti Hoodie'',
        ''description'' \<mapsto> PStr ''Oversized hoodie splashed with neon tags and glow ink.'',
        ''price'' \<mapsto> PFloat (Float 89),
        ''category'' \<mapsto> PStr ''hoodies'',
        ''in_stock'' \<mapsto> PBool True,
        ''image'' \<mapsto> PStr ''https://images.unsplash.com/photo-1512436991641-6745cdb1723f?q=80&w=1600&auto=format&fit=crop'',
        ''colors'' \<mapsto> PList [PStr ''#7C3AED'', PStr ''#06B6D4'', PStr ''#F59E0B'']],
       [''title'' \<mapsto> PStr ''Street Halo Sneakers'',
        ''description'' \<mapsto> PStr ''Chunky sneakers with iridescent spray gradients.'',
        ''price'' \<mapsto> PFloat (Float 129),
        ''category'' \<mapsto> PStr ''sneakers'',
        ''in_stock'' \<mapsto> PBool True,
        ''image'' \<mapsto> PStr ''https://images.unsplash.com/photo-1542291026-7eec264c27ff?q=80&w=1600&auto=format&fit=crop'',
        ''colors'' \<mapsto> PList [PStr ''#22D3EE'', PStr ''#A78BFA'', PStr ''#F472B6'']],
       [''title'' \<mapsto> PStr ''Stickerbomb Cargo Pants'',
        ''description'' \<mapsto> PStr ''Tactical cargos with removable sticker patches.'',
        ''price'' \<mapsto> PFloat (Float 74),
        ''category'' \<mapsto> PStr ''pants'',
        ''in_stock'' \<mapsto> PBool True,
        ''image'' \<mapsto> PStr ''https://images.unsplash.com/photo-1520975922284-5420f8d7c44a?q=80&w=1600&auto=format&fit=crop'',
        ''colors'' \<mapsto> PList [PStr ''#10B981'', PStr ''#F43F5E'', PStr ''#60A5FA'']],
       [''title'' \<mapsto> PStr ''Drip Aura Cap'',
        ''description'' \<mapsto> PStr ''6-panel cap with melting chrome embroidery.'',
        ''price'' \<mapsto> PFloat (Float 39),
        ''category'' \<mapsto> PStr ''hats'',
        ''in_stock'' \<mapsto> PBool True,
        ''image'' \<mapsto> PStr ''https://images.unsplash.com/photo-1517702145080-e0f9a3fd0c49?q=80&w=1600&auto=format&fit=crop'',
        ''colors'' \<mapsto> PList [PStr ''#FB7185'', PStr ''#34D399'', PStr ''#818CF8'']] ]"

text \<open>The loop \<open>for item in seed_items: create_document("product", item)\<close>.\<close>

fun seed_loop :: "state \<Rightarrow> document list \<Rightarrow> (exn + unit) \<times> state" where
  "seed_loop st [] = (Inr (), st)"
| "seed_loop st (item # items) =
     (case create_document st ''product'' item of
        (Inl e, st') \<Rightarrow> (Inl e, st')
      | (Inr new_id, st') \<Rightarrow> seed_loop st' items)"

definition ensure_seed_products :: "state \<Rightarrow> (exn + unit) \<times> state" where
  "ensure_seed_products st =
     (case st of
        None \<Rightarrow> (Inr (), st)
      | Some d \<Rightarrow>
          (case count_documents d ''product'' of
             Inl e \<Rightarrow> (Inl e, st)
           | Inr n \<Rightarrow> if n = 0 then seed_loop st seed_items else (Inr (), st)))"

section \<open>The handlers\<close>

text \<open>\<open>limit or 20\<close>, for \<open>limit: Optional[int]\<close>.\<close>

definition limit_or_20 :: "int option \<Rightarrow> int" where
  "limit_or_20 limit = (case limit of None \<Rightarrow> 20 | Some n \<Rightarrow> if n = 0 then 20 else n)"

text \<open>The comprehension \<open>[serialize_product(d) for d in docs]\<close>: the first error ends it.\<close>

fun serialize_all :: "builtins \<Rightarrow> document list \<Rightarrow> exn + ProductOut list" where
  "serialize_all rt [] = Inr []"
| "serialize_all rt (d # ds) =
     (case serialize_product rt d of
        Inl e \<Rightarrow> Inl e
      | Inr p \<Rightarrow> (case serialize_all rt ds of Inl e \<Rightarrow> Inl e | Inr ps \<Rightarrow> Inr (p # ps)))"

text \<open>
  \<open>list_products\<close>: the call of \<open>ensure_seed_products\<close> stands before the \<open>try\<close>, so
  its exception leaves the handler as it is; an exception inside the \<open>try\<close> becomes
  \<open>HTTPException(status_code=500, detail=str(e))\<close>.
\<close>

definition list_products :: "builtins \<Rightarrow> state \<Rightarrow> int option \<Rightarrow> (exn + ProductOut list) \<times> state" where
  "list_products rt st limit =
     (case ensure_seed_products st of
        (Inl e, st') \<Rightarrow> (Inl e, st')
      | (Inr u, st') \<Rightarrow>
          (case get_documents st' ''product'' (limit_or_20 limit) of
             Inl e \<Rightarrow> (Inl (HTTPException 500 e), st')
           | Inr docs \<Rightarrow>
               (case serialize_all rt docs of
                  Inl e \<Rightarrow> (Inl (HTTPException 500 e), st')
                | Inr ps \<Rightarrow> (Inr ps, st'))))"

text \<open>\<open>payload.model_dump()\<close>.\<close>

definition opt_str :: "string option \<Rightarrow> pyval" where
  "opt_str s = (case s of None \<Rightarrow> PNone | Some t \<Rightarrow> PStr t)"

definition model_dump :: "ProductCreate \<Rightarrow> document" where
  "model_dump p =
     [''title'' \<mapsto> PStr (title p),
      ''description'' \<mapsto> opt_str (description p),
      ''price'' \<mapsto> PFloat (price p),
      ''category'' \<mapsto> PStr (category p),
      ''in_stock'' \<mapsto> PBool (in_stock p),
      ''image'' \<mapsto> opt_str (image' p),
      ''colors'' \<mapsto> (case colors p of None \<Rightarrow> PNone | Some cs \<Rightarrow> PList (map PStr cs))]"

text \<open>
  The class \<open>Product\<close> of the module \<open>schemas\<close> is not among the sources. Its
  constructor is a parameter of the handler: given the five fields the source passes,
  it returns the exception it raises, or \<open>None\<close> when it accepts them.
\<close>

type_synonym product_schema =
  "string \<Rightarrow> string option \<Rightarrow> pyfloat \<Rightarrow> string \<Rightarrow> bool \<Rightarrow> exn option"

text \<open>
  Modelled from the spec: an instance of the class \<open>Product\<close> of \<open>schemas\<close>, for
  running the handler. The spec's data model: the title is non-empty text and the price
  a non-negative number.
\<close>

definition ProductSchema_spec :: product_schema where
  "ProductSchema_spec t d p c s = (if t \<noteq> [] \<and> float_ge0 p then None else Some ValidationError)"

text \<open>The body of the \<open>try\<close> of \<open>create_product\<close>.\<close>

definition create_product_try ::
  "builtins \<Rightarrow> product_schema \<Rightarrow> state \<Rightarrow> ProductCreate \<Rightarrow> (exn + ProductOut) \<times> state"
where
  "create_product_try rt schema st payload =
     (case schema (title payload) (description payload) (price payload)
             (category payload) (in_stock payload) of
        Some e \<Rightarrow> (Inl e, st)
      | None \<Rightarrow>
          (case create_document st ''product'' (model_dump payload) of
             (Inl e, st') \<Rightarrow> (Inl e, st')
           | (Inr new_id, st') \<Rightarrow>
               (case ObjectId new_id of
                  Inl e \<Rightarrow> (Inl e, st')
                | Inr oid \<Rightarrow>
                    (case st' of
                       None \<Rightarrow> (Inl TypeError, st')
                     | Some d \<Rightarrow>
                         (case find_one d ''product'' oid of
                            Inl e \<Rightarrow> (Inl e, st')
                          | Inr None \<Rightarrow> (Inl AttributeError, st')
                          | Inr (Some doc) \<Rightarrow> (serialize_product rt doc, st'))))))"

text \<open>\<open>create_product\<close>: \<open>except Exception as e: raise HTTPException(400, str(e))\<close>.\<close>

definition create_product ::
  "builtins \<Rightarrow> product_schema \<Rightarrow> state \<Rightarrow> ProductCreate \<Rightarrow> (exn + ProductOut) \<times> state"
where
  "create_product rt schema st payload =
     (case create_product_try rt schema st payload of
        (Inl e, st') \<Rightarrow> (Inl (HTTPException 400 e), st')
      | (Inr p, st') \<Rightarrow> (Inr p, st'))"

section \<open>The diagnostic endpoint\<close>

text \<open>
  The status marks of the source's literals, written as their UTF-8 bytes: the check mark
  U+2705, the cross mark U+274C and the warning sign U+26A0 U+FE0F.
\<close>

definition check_mark :: string where
  "check_mark = [CHR 0xE2, CHR 0x9C, CHR 0x85]"

definition cross_mark :: string where
  "cross_mark = [CHR 0xE2, CHR 0x9D, CHR 0x8C]"

definition warning_sign :: string where
  "warning_sign = [CHR 0xE2, CHR 0x9A, CHR 0xA0, CHR 0xEF, CHR 0xB8, CHR 0x8F]"

text \<open>The dictionary \<open>response\<close> of \<open>test_database\<close>, one field per key.\<close>

record test_report =
  backend :: string
  database :: string
  database_url :: "string option"
  database_name :: "string option"
  connection_status :: string
  collections :: "string list"

text \<open>\<open>os.getenv(k)\<close> read as a condition: set, and not the empty string.\<close>

definition getenv_set :: "(string \<rightharpoonup> string) \<Rightarrow> string \<Rightarrow> bool" where
  "getenv_set env k = (case env k of None \<Rightarrow> False | Some v \<Rightarrow> v \<noteq> [])"

text \<open>
  \<open>test_database\<close>. \<open>hasattr(db, 'name')\<close> lets any exception but \<open>AttributeError\<close>
  through, to the outer \<open>except\<close>; an exception of \<open>list_collection_names\<close> is
  caught by the inner one. Both keep the first 50 characters of the error text.
\<close>

definition test_database :: "(string \<rightharpoonup> string) \<Rightarrow> state \<Rightarrow> test_report" where
  "test_database env st =
     (let response =
            \<lparr>backend = check_mark @ '' Running'',
             database = cross_mark @ '' Not Available'',
             database_url = None,
             database_name = None,
             connection_status = ''Not Connected'',
             collections = []\<rparr>;
          response =
            (case st of
               None \<Rightarrow> response\<lparr>database := warning_sign @ ''  Available but not initialized''\<rparr>
             | Some d \<Rightarrow>
                 (let response = response\<lparr>database := check_mark @ '' Available'',
                                           database_url := Some (check_mark @ '' Configured'')\<rparr>
                  in case name_attr d of
                       AttrRaises msg \<Rightarrow>
                         response\<lparr>database := cross_mark @ '' Error: '' @ take 50 msg\<rparr>
                     | a \<Rightarrow>
                         (let response =
                                response\<lparr>database_name :=
                                            Some (case a of Attr n \<Rightarrow> n
                                                  | _ \<Rightarrow> check_mark @ '' Connected''),
                                          connection_status := ''Connected''\<rparr>
                          in case list_collection_names d of
                               Inl msg \<Rightarrow>
                                 response\<lparr>database :=
                                   warning_sign @ ''  Connected but Error: '' @ take 50 msg\<rparr>
                             | Inr names \<Rightarrow>
                                 response\<lparr>collections := take 10 names,
                                          database := check_mark @ '' Connected & Working''\<rparr>)))
      in response\<lparr>database_url :=
                     Some (if getenv_set env ''DATABASE_URL'' then check_mark @ '' Set''
                           else cross_mark @ '' Not Set''),
                   database_name :=
                     Some (if getenv_set env ''DATABASE_NAME'' then check_mark @ '' Set''
                           else cross_mark @ '' Not Set'')\<rparr>)"

section \<open>The routes\<close>

text \<open>
  What FastAPI answers for a route. A handler that returns gives status 200 with the
  value as the JSON body. An \<open>HTTPException\<close> gives its status code with the body
  \<open>{"detail": ...}\<close>. Any other exception leaves the application as it is and the
  server answers 500 with the plain text \<open>Internal Server Error\<close>. A request body that
  fails the model declared for the handler's parameter is answered 422 with the list of
  validation errors, and the handler is not called.
\<close>

datatype 'a http_response =
    Response200 'a
  | ErrorDetail nat exn
  | RequestValidation422
  | InternalServerError500

fun status_code :: "'a http_response \<Rightarrow> nat" where
  "status_code (Response200 v) = 200"
| "status_code (ErrorDetail c e) = c"
| "status_code RequestValidation422 = 422"
| "status_code InternalServerError500 = 500"

fun respond :: "exn + 'a \<Rightarrow> 'a http_response" where
  "respond (Inr v) = Response200 v"
| "respond (Inl (HTTPException c e)) = ErrorDetail c e"
| "respond (Inl e) = InternalServerError500"

text \<open>\<open>@app.get("/test")\<close>.\<close>

definition GET_test :: "(string \<rightharpoonup> string) \<Rightarrow> state \<Rightarrow> test_report http_response" where
  "GET_test env st = respond (Inr (test_database env st))"

text \<open>\<open>@app.get("/api/products")\<close>, with the query parameter \<open>limit\<close>.\<close>

definition GET_api_products ::
  "builtins \<Rightarrow> state \<Rightarrow> int option \<Rightarrow> ProductOut list http_response \<times> state"
where
  "GET_api_products rt st limit =
     (case list_products rt st limit of (r, st') \<Rightarrow> (respond r, st'))"

text \<open>
  \<open>@app.post("/api/products")\<close>. The body arrives with the field types of
  \<open>ProductCreate\<close>; of the model's validation the constraint \<open>ge=0\<close> on the price is
  left to check.
\<close>

definition POST_api_products ::
  "builtins \<Rightarrow> product_schema \<Rightarrow> state \<Rightarrow> ProductCreate \<Rightarrow> ProductOut http_response \<times> state"
where
  "POST_api_products rt schema st body =
     (if float_ge0 (price body)
      then (case create_product rt schema st body of (r, st') \<Rightarrow> (respond r, st'))
      else (RequestValidation422, st))"

section \<open>Well-formed documents\<close>

text \<open>
  The documents \<open>serialize_product\<close> accepts: each field that is present holds a value
  its target type takes. The title and the category are strings; the description and the
  image are strings or \<open>None\<close>; \<open>float\<close> converts the price, to a value that is at
  least 0; the colors are falsy, or a list of strings. \<open>_id\<close> and \<open>in_stock\<close> may
  hold anything.
\<close>

fun is_str :: "pyval \<Rightarrow> bool" where
  "is_str (PStr s) = True"
| "is_str v = False"

fun is_opt_str :: "pyval \<Rightarrow> bool" where
  "is_opt_str PNone = True"
| "is_opt_str (PStr s) = True"
| "is_opt_str v = False"

fun is_str_list :: "pyval \<Rightarrow> bool" where
  "is_str_list (PList xs) = list_all is_str xs"
| "is_str_list v = False"

definition price_ok :: "builtins \<Rightarrow> pyval \<Rightarrow> bool" where
  "price_ok rt v = (case py_float rt v of Inl e \<Rightarrow> False | Inr f \<Rightarrow> float_ge0 f)"

definition colors_ok :: "pyval \<Rightarrow> bool" where
  "colors_ok v = (if py_bool v then is_str_list v else True)"

definition field_ok :: "document \<Rightarrow> string \<Rightarrow> (pyval \<Rightarrow> bool) \<Rightarrow> bool" where
  "field_ok doc k ok = (case doc k of None \<Rightarrow> True | Some v \<Rightarrow> ok v)"

definition well_formed :: "builtins \<Rightarrow> document \<Rightarrow> bool" where
  "well_formed rt doc =
     (field_ok doc ''title'' is_str \<and>
      field_ok doc ''description'' is_opt_str \<and>
      field_ok doc ''price'' (price_ok rt) \<and>
      field_ok doc ''category'' is_str \<and>
      field_ok doc ''image'' is_opt_str \<and>
      field_ok doc ''colors'' colors_ok)"

text \<open>A price below 0.\<close>

fun float_lt0 :: "pyfloat \<Rightarrow> bool" where
  "float_lt0 (Float q) = (q < 0)"
| "float_lt0 NegInf = True"
| "float_lt0 f = False"

text \<open>The number of products a response carries.\<close>

fun n_products :: "ProductOut list http_response \<Rightarrow> nat" where
  "n_products (Response200 ps) = length ps"
| "n_products r = 0"

section \<open>Example inputs\<close>

text \<open>
  An interpreter for the runs below, none of which converts a string to a float or
  prints a float or a container.
\<close>

definition rt_example :: builtins where
  "rt_example = \<lparr>float_of_str = (\<lambda>s. None), repr_of = (\<lambda>v. [])\<rparr>"

text \<open>A connected, working database with no collection yet, and one whose reads fail.\<close>

definition db_empty :: mongo_db where
  "db_empty = \<lparr>name_attr = Attr ''shop'', colls = [], read_fault = None, write_fault = None\<rparr>"

definition db_down :: mongo_db where
  "db_down = db_empty\<lparr>read_fault := Some ''connection refused''\<rparr>"

definition tee :: ProductCreate where
  "tee = \<lparr>title = ''Tee'', description = None, price = Float 25, category = ''shirts'',
          in_stock = True, image' = None, colors = Some [''#000000'', ''#FFFFFF'']\<rparr>"

text \<open>A stored document with no \<open>_id\<close>, no category and a falsy \<open>colors\<close>.\<close>

definition doc_sparse :: document where
  "doc_sparse =
     [''title'' \<mapsto> PStr ''Tee'', ''price'' \<mapsto> PFloat (Float 25), ''colors'' \<mapsto> PInt 0]"

section \<open>Serialization: when it returns, and what\<close>

lemma float_of_int_0: "float_of_int 0 = Inr (Float 0)"
  by (simp add: float_of_int_def round53_def)

text \<open>Integers below \<open>2 ^ 53\<close> in size convert exactly.\<close>

lemma bitlen_le: "n < 2 ^ k \<Longrightarrow> bitlen n \<le> k"
proof (induction k arbitrary: n)
  case 0
  then show ?case by simp
next
  case (Suc k)
  show ?case
  proof (cases "n = 0")
    case True
    then show ?thesis by simp
  next
    case False
    from Suc.prems have "n div 2 < 2 ^ k" by auto
    from Suc.IH [OF this] have "Suc (bitlen (n div 2)) \<le> Suc k" by simp
    with False show ?thesis by (subst bitlen.simps) simp
  qed
qed

lemma float_of_int_small:
  assumes "\<bar>i\<bar> < 2 ^ 53"
  shows "float_of_int i = Inr (Float (of_int i))"
proof -
  from assms have n: "nat \<bar>i\<bar> < 2 ^ 53"
    by (simp add: nat_less_iff)
  from bitlen_le [OF n] have r: "round53 (nat \<bar>i\<bar>) = nat \<bar>i\<bar>"
    by (simp add: round53_def Let_def)
  have "(2::nat) ^ 53 < 2 ^ 1024" by simp
  with n have "\<not> 2 ^ 1024 \<le> nat \<bar>i\<bar>" by linarith
  moreover have "sgn i * int (nat \<bar>i\<bar>) = i" by (simp add: sgn_if)
  ultimately show ?thesis by (simp add: float_of_int_def r)
qed

lemma v_str_Some_iff: "(v_str v = Some s) = (v = PStr s)"
  by (cases v) auto

lemma v_str_None_iff: "(v_str v = None) = (\<not> is_str v)"
  by (cases v) auto

lemma v_opt_str_None_iff: "(v_opt_str v = None) = (\<not> is_opt_str v)"
  by (cases v) auto

lemma v_opt_str_Some_iff: "(v_opt_str v = Some s) = (v = opt_str s)"
  by (cases v; cases s) (auto simp: opt_str_def)

lemma v_str_list_map: "v_str_list (map PStr ss) = Some ss"
  by (induction ss) auto

lemma v_str_list_SomeD: "v_str_list xs = Some ss \<Longrightarrow> xs = map PStr ss"
  by (induction xs arbitrary: ss) (auto simp: v_str_Some_iff split: option.splits)

lemma v_str_list_None_iff: "(v_str_list xs = None) = (\<not> list_all is_str xs)"
  by (induction xs) (auto simp: v_str_None_iff v_str_Some_iff split: option.splits)

lemma v_opt_str_list_None_iff:
  "(v_opt_str_list v = None) = (v \<noteq> PNone \<and> \<not> is_str_list v)"
  by (cases v) (auto simp: v_str_list_None_iff)


lemma v_opt_str_list_SomeD:
  "v_opt_str_list v = Some r \<Longrightarrow> v = (case r of None \<Rightarrow> PNone | Some cs \<Rightarrow> PList (map PStr cs))"
  by (cases v) (auto dest: v_str_list_SomeD)

lemma opt_str_inj: "(opt_str a = opt_str b) = (a = b)"
  by (cases a; cases b) (simp_all add: opt_str_def)

lemma v_opt_str_opt_str: "v_opt_str (opt_str a) = Some a"
  by (cases a) (simp_all add: opt_str_def)

lemma ProductOut_init_Inr_iff:
  "(ProductOut_init i t d p c s im cs = Inr r) =
   (float_ge0 p \<and>
    (\<exists>t' d' c' im' cs'. t = PStr t' \<and> d = opt_str d' \<and> c = PStr c' \<and> im = opt_str im' \<and>
       v_opt_str_list cs = Some cs' \<and>
       r = \<lparr>title = t', description = d', price = p, category = c',
            in_stock = s, image' = im', colors = cs', id' = i\<rparr>))"
  by (auto simp: ProductOut_init_def v_str_Some_iff v_opt_str_Some_iff opt_str_inj
                v_opt_str_opt_str
           split: option.splits)

lemma py_or_not_None: "py_or v (PList []) \<noteq> PNone"
  by (cases v) (simp_all add: py_or_def)

lemma v_opt_str_list_py_or:
  "(v_opt_str_list (py_or v (PList [])) = Some r) =
   (\<exists>cs. r = Some cs \<and> py_or v (PList []) = PList (map PStr cs))"
proof
  assume h: "v_opt_str_list (py_or v (PList [])) = Some r"
  from v_opt_str_list_SomeD [OF h] py_or_not_None [of v]
  show "\<exists>cs. r = Some cs \<and> py_or v (PList []) = PList (map PStr cs)"
    by (cases r) auto
next
  assume "\<exists>cs. r = Some cs \<and> py_or v (PList []) = PList (map PStr cs)"
  then show "v_opt_str_list (py_or v (PList [])) = Some r"
    by (auto simp: v_str_list_map)
qed

lemma serialize_product_Inr_iff:
  "(serialize_product rt doc = Inr r) =
   (\<exists>p t d c im cs.
      py_float rt (get_default doc ''price'' (PInt 0)) = Inr p \<and> float_ge0 p \<and>
      get_default doc ''title'' (PStr '''') = PStr t \<and>
      get doc ''description'' = opt_str d \<and>
      get_default doc ''category'' (PStr ''streetwear'') = PStr c \<and>
      get doc ''image'' = opt_str im \<and>
      py_or (get doc ''colors'') (PList []) = PList (map PStr cs) \<and>
      r = \<lparr>title = t, description = d, price = p, category = c,
           in_stock = py_bool (get_default doc ''in_stock'' (PBool True)),
           image' = im, colors = Some cs, id' = py_str rt (get doc ''_id'')\<rparr>)"
  by (auto simp: serialize_product_def ProductOut_init_Inr_iff v_opt_str_list_py_or
           split: sum.splits)

lemma serialize_product_fields:
  assumes "serialize_product rt doc = Inr r"
  shows "PStr (title r) = get_default doc ''title'' (PStr '''')"
    and "opt_str (description r) = get doc ''description''"
    and "py_float rt (get_default doc ''price'' (PInt 0)) = Inr (price r)"
    and "float_ge0 (price r)"
    and "PStr (category r) = get_default doc ''category'' (PStr ''streetwear'')"
    and "in_stock r = py_bool (get_default doc ''in_stock'' (PBool True))"
    and "opt_str (image' r) = get doc ''image''"
    and "\<exists>cs. colors r = Some cs \<and> PList (map PStr cs) = py_or (get doc ''colors'') (PList [])"
    and "id' r = py_str rt (get doc ''_id'')"
  using assms by (auto simp: serialize_product_Inr_iff)

lemma is_str_iff: "is_str v = (\<exists>s. v = PStr s)"
  by (cases v) auto

lemma is_opt_str_iff: "is_opt_str v = (\<exists>s. v = opt_str s)"
proof -
  have "is_opt_str v = (\<exists>s. v_opt_str v = Some s)"
    using v_opt_str_None_iff [of v] by auto
  then show ?thesis by (simp add: v_opt_str_Some_iff)
qed

lemma is_str_list_iff: "is_str_list v = (\<exists>cs. v = PList (map PStr cs))"
proof (cases v)
  case (PList xs)
  have "list_all is_str xs = (\<exists>cs. xs = map PStr cs)"
  proof
    assume "list_all is_str xs"
    then have "v_str_list xs \<noteq> None" by (simp add: v_str_list_None_iff)
    then obtain cs where "v_str_list xs = Some cs" by auto
    then show "\<exists>cs. xs = map PStr cs" by (auto dest: v_str_list_SomeD)
  next
    assume "\<exists>cs. xs = map PStr cs"
    then show "list_all is_str xs" by (auto simp: list_all_iff)
  qed
  with PList show ?thesis by simp
qed auto

lemma colors_ok_iff:
  "colors_ok v = (\<exists>cs. py_or v (PList []) = PList (map PStr cs))"
  by (auto simp: colors_ok_def py_or_def is_str_list_iff)

lemma price_ok_iff:
  "price_ok rt v = (\<exists>p. py_float rt v = Inr p \<and> float_ge0 p)"
  by (auto simp: price_ok_def split: sum.splits)

lemma well_formed_unfold:
  "well_formed rt doc =
     (is_str (get_default doc ''title'' (PStr [])) \<and>
      is_opt_str (get doc ''description'') \<and>
      price_ok rt (get_default doc ''price'' (PInt 0)) \<and>
      is_str (get_default doc ''category'' (PStr ''streetwear'')) \<and>
      is_opt_str (get doc ''image'') \<and>
      colors_ok (get doc ''colors''))"
  by (simp add: well_formed_def field_ok_def get_def get_default_def price_ok_def
      colors_ok_def float_of_int_0 split: option.splits)

lemma serialize_product_returns_iff:
  "(\<exists>r. serialize_product rt doc = Inr r) = well_formed rt doc"
  unfolding well_formed_unfold serialize_product_Inr_iff is_str_iff is_opt_str_iff
    colors_ok_iff price_ok_iff
  by blast

lemma well_formed_falsy_colors:
  assumes "well_formed rt doc" "\<not> py_bool v"
  shows "well_formed rt (doc(''colors'' \<mapsto> v))"
  using assms by (simp add: well_formed_def field_ok_def colors_ok_def)

lemma well_formed_drop:
  assumes "well_formed rt doc"
  shows "well_formed rt (doc(k := None))"
  using assms by (simp add: well_formed_def field_ok_def)

section \<open>Claims about serialization\<close>

text \<open>
  C2, as the spec has it: \<open>serialize_product\<close> is a pure, total function that returns a
  Product for every stored document, whatever its fields hold. The code raises on a
  document whose price is \<open>None\<close>: \<open>float(None)\<close> is a \<open>TypeError\<close>.
\<close>

theorem serialize_product_raises_on_null_price:
  "serialize_product rt_example
     [''_id'' \<mapsto> PObjectId 1, ''title'' \<mapsto> PStr ''Tee'', ''price'' \<mapsto> PNone]
   = Inl TypeError"
  by (simp add: serialize_product_def get_default_def)

text \<open>
  C2, amended: \<open>serialize_product\<close> is a pure function of the document (and of the
  interpreter's conversions), and it returns a Product exactly for the well-formed
  documents; on every other document it raises.
\<close>

theorem serialize_product_returns_iff_well_formed:
  "(\<exists>p. serialize_product rt doc = Inr p) = well_formed rt doc"
  by (rule serialize_product_returns_iff)

theorem serialize_product_returns_iff_well_formed_witness:
  "well_formed rt_example doc_sparse \<and> (\<exists>p. serialize_product rt_example doc_sparse = Inr p)"
proof -
  have w: "well_formed rt_example doc_sparse"
    by (simp add: well_formed_def field_ok_def doc_sparse_def price_ok_def colors_ok_def)
  have "\<exists>p. serialize_product rt_example doc_sparse = Inr p"
    using w by (simp only: serialize_product_returns_iff_well_formed)
  with w show ?thesis by (rule conjI)
qed

text \<open>
  C6, as the spec has it: for every stored document \<open>serialize_product\<close> returns a
  Product whose price is the numeric coercion of the stored value. The model
  \<open>ProductOut\<close> inherits the constraint \<open>ge=0\<close>, so a stored price of \<open>-5\<close> is
  not returned as \<open>-5.0\<close>: the constructor raises \<open>ValidationError\<close>.
\<close>

theorem serialize_product_rejects_negative_price:
  "serialize_product rt_example
     [''_id'' \<mapsto> PObjectId 1, ''title'' \<mapsto> PStr ''Tee'', ''price'' \<mapsto> PFloat (Float (- 5))]
   = Inl ValidationError"
  by (simp add: serialize_product_def get_default_def get_def ProductOut_init_def py_or_def)

text \<open>
  C6, amended: for every well-formed stored document \<open>serialize_product\<close> returns a
  Product with the title equal to the stored value or \<open>""\<close> if absent, the price equal
  to \<open>float\<close> of the stored value or 0 if absent, the category equal to the stored
  value or \<open>"streetwear"\<close> if absent, \<open>in_stock\<close> equal to the truth value of the
  stored value or true if absent, the colors equal to the stored list or the empty list
  if absent or null, never null, and the description and the image passed through.
\<close>

theorem serialize_product_defaulting:
  assumes "well_formed rt doc"
  shows "\<exists>p. serialize_product rt doc = Inr p \<and>
           PStr (title p) = get_default doc ''title'' (PStr []) \<and>
           py_float rt (get_default doc ''price'' (PInt 0)) = Inr (price p) \<and>
           (doc ''price'' = None \<longrightarrow> price p = Float 0) \<and>
           PStr (category p) = get_default doc ''category'' (PStr ''streetwear'') \<and>
           in_stock p = py_bool (get_default doc ''in_stock'' (PBool True)) \<and>
           (doc ''in_stock'' = None \<longrightarrow> in_stock p) \<and>
           (\<exists>cs. colors p = Some cs \<and>
                 PList (map PStr cs) = py_or (get doc ''colors'') (PList [])) \<and>
           (doc ''colors'' = None \<or> doc ''colors'' = Some PNone \<longrightarrow> colors p = Some []) \<and>
           opt_str (description p) = get doc ''description'' \<and>
           opt_str (image' p) = get doc ''image''"
proof -
  from assms obtain p where p: "serialize_product rt doc = Inr p"
    using serialize_product_returns_iff by blast
  note f = serialize_product_fields [OF p]
  have co: "doc ''colors'' = None \<or> doc ''colors'' = Some PNone \<longrightarrow> colors p = Some []"
  proof -
    from f(8) obtain cs where cs: "colors p = Some cs"
      "PList (map PStr cs) = py_or (get doc ''colors'') (PList [])" by blast
    then show ?thesis by (auto simp: get_def py_or_def)
  qed
  show ?thesis
  proof (rule exI, intro conjI)
    show "serialize_product rt doc = Inr p" by (rule p)
    show "PStr (title p) = get_default doc ''title'' (PStr [])" by (rule f(1))
    show "py_float rt (get_default doc ''price'' (PInt 0)) = Inr (price p)" by (rule f(3))
    show "doc ''price'' = None \<longrightarrow> price p = Float 0"
      using f(3) by (auto simp: get_default_def float_of_int_0)
    show "PStr (category p) = get_default doc ''category'' (PStr ''streetwear'')"
      by (rule f(5))
    show "in_stock p = py_bool (get_default doc ''in_stock'' (PBool True))" by (rule f(6))
    show "doc ''in_stock'' = None \<longrightarrow> in_stock p"
      using f(6) by (auto simp: get_default_def)
    show "\<exists>cs. colors p = Some cs \<and>
                 PList (map PStr cs) = py_or (get doc ''colors'') (PList [])" by (rule f(8))
    show "doc ''colors'' = None \<or> doc ''colors'' = Some PNone \<longrightarrow> colors p = Some []"
      by (rule co)
    show "opt_str (description p) = get doc ''description''" by (rule f(2))
    show "opt_str (image' p) = get doc ''image''" by (rule f(7))
  qed
qed

theorem serialize_product_defaulting_witness:
  "well_formed rt_example doc_sparse \<and>
   serialize_product rt_example doc_sparse =
     Inr \<lparr>title = ''Tee'', description = None, price = Float 25, category = ''streetwear'',
          in_stock = True, image' = None, colors = Some [], id' = ''None''\<rparr>"
proof -
  have w: "well_formed rt_example doc_sparse"
    by (simp add: well_formed_def field_ok_def doc_sparse_def price_ok_def colors_ok_def)
  have "\<exists>p. serialize_product rt_example doc_sparse = Inr p"
    using serialize_product_defaulting [OF w] by (rule exE) (erule conjE, rule exI, assumption)
  moreover have "serialize_product rt_example doc_sparse =
     Inr \<lparr>title = ''Tee'', description = None, price = Float 25, category = ''streetwear'',
          in_stock = True, image' = None, colors = Some [], id' = ''None''\<rparr>"
    by (simp add: serialize_product_def get_default_def get_def ProductOut_init_def py_or_def
        doc_sparse_def)
  ultimately show ?thesis using w by simp
qed

text \<open>
  C10: \<open>serialize_product\<close> turns every falsy stored value of \<open>colors\<close>, among them
  \<open>None\<close>, \<open>False\<close>, \<open>0\<close>, \<open>""\<close> and the empty list, into the empty list; the
  field \<open>id\<close> is \<open>str\<close> of whatever is stored under \<open>_id\<close>, and it is the string
  \<open>"None"\<close>, with no failure, when \<open>_id\<close> is absent.
\<close>

theorem serialize_product_falsy_colors_and_id:
  assumes "well_formed rt doc" and "\<not> py_bool v"
  shows "(\<exists>p. serialize_product rt (doc(''colors'' \<mapsto> v)) = Inr p \<and>
              colors p = Some [] \<and> id' p = py_str rt (get doc ''_id'')) \<and>
         (\<exists>p. serialize_product rt (doc(''_id'' := None)) = Inr p \<and> id' p = ''None'') \<and>
         py_bool PNone = False \<and> py_bool (PBool False) = False \<and> py_bool (PInt 0) = False \<and>
         py_bool (PStr []) = False \<and> py_bool (PList []) = False"
proof -
  from well_formed_falsy_colors [OF assms]
  obtain p where p: "serialize_product rt (doc(''colors'' \<mapsto> v)) = Inr p"
    using serialize_product_returns_iff by blast
  note f = serialize_product_fields [OF p]
  from f(8) assms(2) have c: "colors p = Some []"
    by (auto simp: get_def py_or_def)
  from f(9) have i: "id' p = py_str rt (get doc ''_id'')"
    by (simp add: get_def)
  from well_formed_drop [OF assms(1)]
  obtain q where q: "serialize_product rt (doc(''_id'' := None)) = Inr q"
    using serialize_product_returns_iff by blast
  from serialize_product_fields(9) [OF q] have n: "id' q = ''None''"
    by (simp add: get_def)
  have a: "\<exists>p. serialize_product rt (doc(''colors'' \<mapsto> v)) = Inr p \<and>
              colors p = Some [] \<and> id' p = py_str rt (get doc ''_id'')"
    using p c i by (intro exI [of _ p] conjI)
  have b: "\<exists>p. serialize_product rt (doc(''_id'' := None)) = Inr p \<and> id' p = ''None''"
    using q n by (intro exI [of _ q] conjI)
  from a b show ?thesis by simp
qed

theorem serialize_product_falsy_colors_and_id_witness:
  "well_formed rt_example doc_sparse \<and> py_bool (PStr []) = False \<and>
   (\<exists>p. serialize_product rt_example (doc_sparse(''colors'' \<mapsto> PStr [])) = Inr p \<and>
        colors p = Some [] \<and> id' p = ''None'')"
proof -
  have w: "well_formed rt_example doc_sparse"
    by (simp add: well_formed_def field_ok_def doc_sparse_def price_ok_def colors_ok_def)
  have nb: "\<not> py_bool (PStr [])" by simp
  have g: "py_str rt_example (get doc_sparse ''_id'') = ''None''"
    by (simp add: get_def doc_sparse_def)
  from serialize_product_falsy_colors_and_id [OF w nb]
  have "\<exists>p. serialize_product rt_example (doc_sparse(''colors'' \<mapsto> PStr [])) = Inr p \<and>
        colors p = Some [] \<and> id' p = py_str rt_example (get doc_sparse ''_id'')"
    by (rule conjunct1)
  then have "\<exists>p. serialize_product rt_example (doc_sparse(''colors'' \<mapsto> PStr [])) = Inr p \<and>
        colors p = Some [] \<and> id' p = ''None''"
    by (simp only: g)
  with w show ?thesis by simp
qed

section \<open>The store, seeding and listing\<close>

lemma coll_store_insert:
  "coll (store_insert d name doc) name' = (if name' = name then coll d name @ [doc] else coll d name')"
  by (simp add: store_insert_def coll_def update_conv')

lemma faults_store_insert:
  "read_fault (store_insert d name doc) = read_fault d"
  "write_fault (store_insert d name doc) = write_fault d"
  "name_attr (store_insert d name doc) = name_attr d"
  by (simp_all add: store_insert_def)

lemma create_document_working:
  "write_fault d = None \<Longrightarrow>
   create_document (Some d) name data =
     (Inr (oid_str (fresh_oid (coll d name))),
      Some (store_insert d name (data(''_id'' \<mapsto> PObjectId (fresh_oid (coll d name))))))"
  by (simp add: create_document_def Let_def)

lemma create_document_fault:
  "write_fault d = Some msg \<Longrightarrow>
   create_document (Some d) name data = (Inl (StoreWriteError msg), Some d)"
  by (simp add: create_document_def)

lemma seed_loop_length:
  "seed_loop (Some d) items = (Inr u, st') \<Longrightarrow>
   \<exists>d'. st' = Some d' \<and> read_fault d' = read_fault d \<and>
     length (coll d' ''product'') = length (coll d ''product'') + length items"
proof (induction items arbitrary: d)
  case Nil
  then show ?case by auto
next
  case (Cons item items)
  show ?case
  proof (cases "write_fault d")
    case None
    let ?d1 = "store_insert d ''product''
                 (item(''_id'' \<mapsto> PObjectId (fresh_oid (coll d ''product''))))"
    from Cons.prems None have "seed_loop (Some ?d1) items = (Inr u, st')"
      by (simp add: create_document_working)
    from Cons.IH [OF this] show ?thesis
      by (auto simp: coll_store_insert faults_store_insert)
  next
    case (Some msg)
    with Cons.prems show ?thesis by (simp add: create_document_fault)
  qed
qed

lemma seed_items_list:
  "seed_items = [seed_items ! 0, seed_items ! 1, seed_items ! 2, seed_items ! 3]"
  by (simp add: seed_items_def)

lemma seed_loop_four:
  assumes "write_fault d = None" and "coll d ''product'' = []"
  shows "\<exists>d'. seed_loop (Some d) [a, b, c, e] = (Inr (), Some d') \<and>
           read_fault d' = read_fault d \<and> write_fault d' = None \<and>
           coll d' ''product'' =
             [a(''_id'' \<mapsto> PObjectId 0), b(''_id'' \<mapsto> PObjectId 1),
              c(''_id'' \<mapsto> PObjectId 2), e(''_id'' \<mapsto> PObjectId 3)]"
  using assms
  by (simp add: create_document_working coll_store_insert faults_store_insert
      fresh_oid_def numeral_2_eq_2 numeral_3_eq_3)

lemma ensure_seed_products_None: "ensure_seed_products None = (Inr (), None)"
  by (simp add: ensure_seed_products_def)

lemma ensure_seed_products_nonempty:
  "read_fault d = None \<Longrightarrow> coll d ''product'' \<noteq> [] \<Longrightarrow>
   ensure_seed_products (Some d) = (Inr (), Some d)"
  by (simp add: ensure_seed_products_def count_documents_def)

lemma ensure_seed_products_empty:
  "read_fault d = None \<Longrightarrow> coll d ''product'' = [] \<Longrightarrow>
   ensure_seed_products (Some d) = seed_loop (Some d) seed_items"
  by (simp add: ensure_seed_products_def count_documents_def)

lemma ensure_seed_products_read_fault:
  "read_fault d = Some msg \<Longrightarrow>
   ensure_seed_products (Some d) = (Inl (StoreReadError msg), Some d)"
  by (simp add: ensure_seed_products_def count_documents_def)

lemma ensure_seed_products_Inr:
  assumes "ensure_seed_products (Some d) = (Inr u, st')"
  shows "\<exists>d'. st' = Some d' \<and> read_fault d' = None \<and> coll d' ''product'' \<noteq> []"
proof (cases "read_fault d")
  case (Some msg)
  with assms show ?thesis by (simp add: ensure_seed_products_read_fault)
next
  case None
  show ?thesis
  proof (cases "coll d ''product'' = []")
    case False
    with assms None show ?thesis by (auto simp: ensure_seed_products_nonempty)
  next
    case True
    with assms None have "seed_loop (Some d) seed_items = (Inr u, st')"
      by (simp add: ensure_seed_products_empty)
    from seed_loop_length [OF this] None show ?thesis
      by (auto simp: seed_items_def)
  qed
qed

lemma list_products_state:
  "snd (list_products rt st limit) = snd (ensure_seed_products st)"
  by (simp add: list_products_def split: prod.splits sum.splits)

lemma list_products_Inr:
  assumes "list_products rt st limit = (Inr ps, st')"
  shows "\<exists>d'. st' = Some d' \<and> ensure_seed_products st = (Inr (), st') \<and>
           read_fault d' = None \<and>
           serialize_all rt (take (nat (limit_or_20 limit)) (coll d' ''product'')) = Inr ps"
  using assms
  by (auto simp: list_products_def get_documents_def
           split: prod.splits sum.splits option.splits)

lemma serialize_all_length:
  "serialize_all rt docs = Inr ps \<Longrightarrow> length ps = length docs"
  by (induction docs arbitrary: ps) (auto split: sum.splits)

lemma serialize_all_nth:
  "serialize_all rt docs = Inr ps \<Longrightarrow> i < length docs \<Longrightarrow>
   serialize_product rt (docs ! i) = Inr (ps ! i)"
proof (induction docs arbitrary: ps i)
  case Nil
  then show ?case by simp
next
  case (Cons d ds)
  then show ?case by (cases i) (auto split: sum.splits)
qed

lemma list_products_length:
  assumes "list_products rt st limit = (Inr ps, st')"
  shows "length ps \<le> nat (limit_or_20 limit)"
proof -
  from list_products_Inr [OF assms] obtain d' where
    "serialize_all rt (take (nat (limit_or_20 limit)) (coll d' ''product'')) = Inr ps"
    by blast
  from serialize_all_length [OF this] show ?thesis by simp
qed

lemma n_products_GET:
  "n_products (fst (GET_api_products rt st limit)) \<le> nat (limit_or_20 limit)"
proof (cases "list_products rt st limit")
  case (Pair r st')
  show ?thesis
  proof (cases r)
    case (Inl e)
    with Pair show ?thesis by (cases e) (simp_all add: GET_api_products_def)
  next
    case (Inr ps)
    with Pair list_products_length [of rt st limit ps st'] show ?thesis
      by (simp add: GET_api_products_def)
  qed
qed

lemma list_products_not_empty:
  assumes pos: "0 < limit_or_20 limit"
  shows "fst (list_products rt st limit) \<noteq> Inr []"
proof
  assume h: "fst (list_products rt st limit) = Inr []"
  then obtain st' where lp: "list_products rt st limit = (Inr [], st')"
    by (cases "list_products rt st limit") simp
  from list_products_Inr [OF lp] obtain d' where d':
    "st' = Some d'" "ensure_seed_products st = (Inr (), st')"
    "serialize_all rt (take (nat (limit_or_20 limit)) (coll d' ''product'')) = Inr []"
    by blast
  have "st \<noteq> None"
  proof
    assume "st = None"
    with d'(1,2) show False by (simp add: ensure_seed_products_None)
  qed
  then obtain d where "st = Some d" by auto
  with d'(2) ensure_seed_products_Inr [of d "()" st'] d'(1)
  have ne: "coll d' ''product'' \<noteq> []" by auto
  from serialize_all_length [OF d'(3)]
  have "min (length (coll d' ''product'')) (nat (limit_or_20 limit)) = 0" by simp
  with ne pos show False by (auto simp: min_def split: if_splits)
qed

lemma float_lt0_not_ge0: "float_lt0 f \<Longrightarrow> \<not> float_ge0 f"
  by (cases f) auto

lemma serialize_all_well_formed:
  "list_all (well_formed rt) docs \<Longrightarrow> \<exists>ps. serialize_all rt docs = Inr ps"
proof (induction docs)
  case Nil
  then show ?case by simp
next
  case (Cons d ds)
  then obtain p ps where "serialize_product rt d = Inr p" "serialize_all rt ds = Inr ps"
    using serialize_product_returns_iff [of rt d] by auto
  then show ?case by simp
qed

lemma seed_items_well_formed:
  "list_all (\<lambda>item. well_formed rt (item(''_id'' \<mapsto> v))) seed_items"
  by (simp add: seed_items_def well_formed_def field_ok_def price_ok_def colors_ok_def)

lemma seed_items_populated:
  "list_all (\<lambda>item. list_all (\<lambda>k. item k \<noteq> None)
       [''title'', ''description'', ''price'', ''category'', ''in_stock'', ''image'', ''colors''])
     seed_items"
  by (simp add: seed_items_def)

lemma seed_items_titles:
  "map (\<lambda>item. item ''title'') seed_items =
     [Some (PStr ''Neon Graffiti Hoodie''), Some (PStr ''Street Halo Sneakers''),
      Some (PStr ''Stickerbomb Cargo Pants''), Some (PStr ''Drip Aura Cap'')]"
  by (simp add: seed_items_def)

lemma ensure_seed_products_fresh:
  assumes "read_fault d = None" and "write_fault d = None" and "coll d ''product'' = []"
  shows "\<exists>d'. ensure_seed_products (Some d) = (Inr (), Some d') \<and>
           read_fault d' = None \<and> write_fault d' = None \<and>
           coll d' ''product'' =
             [(seed_items ! 0)(''_id'' \<mapsto> PObjectId 0), (seed_items ! 1)(''_id'' \<mapsto> PObjectId 1),
              (seed_items ! 2)(''_id'' \<mapsto> PObjectId 2), (seed_items ! 3)(''_id'' \<mapsto> PObjectId 3)]"
proof -
  have "seed_loop (Some d) seed_items =
          seed_loop (Some d) [seed_items ! 0, seed_items ! 1, seed_items ! 2, seed_items ! 3]"
    by (subst seed_items_list) (rule refl)
  with ensure_seed_products_empty [OF assms(1,3)]
  have eq: "ensure_seed_products (Some d) =
          seed_loop (Some d) [seed_items ! 0, seed_items ! 1, seed_items ! 2, seed_items ! 3]"
    by (rule trans)
  from seed_loop_four [OF assms(2,3), of "seed_items ! 0" "seed_items ! 1" "seed_items ! 2"
      "seed_items ! 3"]
  obtain d' where d':
    "seed_loop (Some d) [seed_items ! 0, seed_items ! 1, seed_items ! 2, seed_items ! 3] =
       (Inr (), Some d')"
    "read_fault d' = read_fault d" "write_fault d' = None"
    "coll d' ''product'' =
             [(seed_items ! 0)(''_id'' \<mapsto> PObjectId 0), (seed_items ! 1)(''_id'' \<mapsto> PObjectId 1),
              (seed_items ! 2)(''_id'' \<mapsto> PObjectId 2), (seed_items ! 3)(''_id'' \<mapsto> PObjectId 3)]"
    by blast
  from eq d'(1) have "ensure_seed_products (Some d) = (Inr (), Some d')" by (rule trans)
  moreover from d'(2) assms(1) have "read_fault d' = None" by (rule trans)
  ultimately show ?thesis using d'(3,4) by (intro exI [of _ d'] conjI)
qed

text \<open>
  C4: on a connected, working store \<open>ensure_seed_products\<close> inserts, if the product
  collection counts 0 documents, exactly the 4 fixed seed documents in their fixed order,
  each with title, description, price, category, in_stock, image and colors present, so
  that exactly these 4 documents exist after a first listing; if the count is not 0 it
  writes nothing.
\<close>

theorem ensure_seed_products_seeds_once:
  assumes "read_fault d = None" and "write_fault d = None"
  shows "(coll d ''product'' = [] \<longrightarrow>
           (\<exists>d'. ensure_seed_products (Some d) = (Inr (), Some d') \<and>
              coll d' ''product'' =
                [(seed_items ! 0)(''_id'' \<mapsto> PObjectId 0),
                 (seed_items ! 1)(''_id'' \<mapsto> PObjectId 1),
                 (seed_items ! 2)(''_id'' \<mapsto> PObjectId 2),
                 (seed_items ! 3)(''_id'' \<mapsto> PObjectId 3)] \<and>
              snd (list_products rt (Some d) limit) = Some d')) \<and>
         (coll d ''product'' \<noteq> [] \<longrightarrow> ensure_seed_products (Some d) = (Inr (), Some d)) \<and>
         length seed_items = 4 \<and>
         list_all (\<lambda>item. list_all (\<lambda>k. item k \<noteq> None)
             [''title'', ''description'', ''price'', ''category'', ''in_stock'', ''image'',
              ''colors''])
           seed_items \<and>
         map (\<lambda>item. item ''title'') seed_items =
           [Some (PStr ''Neon Graffiti Hoodie''), Some (PStr ''Street Halo Sneakers''),
            Some (PStr ''Stickerbomb Cargo Pants''), Some (PStr ''Drip Aura Cap'')]"
proof (intro conjI impI)
  assume e: "coll d ''product'' = []"
  from ensure_seed_products_fresh [OF assms e] obtain d' where d':
    "ensure_seed_products (Some d) = (Inr (), Some d')"
    "coll d' ''product'' =
       [(seed_items ! 0)(''_id'' \<mapsto> PObjectId 0), (seed_items ! 1)(''_id'' \<mapsto> PObjectId 1),
        (seed_items ! 2)(''_id'' \<mapsto> PObjectId 2), (seed_items ! 3)(''_id'' \<mapsto> PObjectId 3)]"
    by blast
  from d'(1) have "snd (list_products rt (Some d) limit) = Some d'"
    by (simp add: list_products_state)
  with d' show "\<exists>d'. ensure_seed_products (Some d) = (Inr (), Some d') \<and>
              coll d' ''product'' =
                [(seed_items ! 0)(''_id'' \<mapsto> PObjectId 0),
                 (seed_items ! 1)(''_id'' \<mapsto> PObjectId 1),
                 (seed_items ! 2)(''_id'' \<mapsto> PObjectId 2),
                 (seed_items ! 3)(''_id'' \<mapsto> PObjectId 3)] \<and>
              snd (list_products rt (Some d) limit) = Some d'"
    by (intro exI [of _ d'] conjI)
next
  assume "coll d ''product'' \<noteq> []"
  with assms(1) show "ensure_seed_products (Some d) = (Inr (), Some d)"
    by (rule ensure_seed_products_nonempty)
next
  show "length seed_items = 4" by (simp add: seed_items_def)
next
  show "list_all (\<lambda>item. list_all (\<lambda>k. item k \<noteq> None)
             [''title'', ''description'', ''price'', ''category'', ''in_stock'', ''image'',
              ''colors''])
           seed_items" by (rule seed_items_populated)
next
  show "map (\<lambda>item. item ''title'') seed_items =
           [Some (PStr ''Neon Graffiti Hoodie''), Some (PStr ''Street Halo Sneakers''),
            Some (PStr ''Stickerbomb Cargo Pants''), Some (PStr ''Drip Aura Cap'')]"
    by (rule seed_items_titles)
qed

lemma db_empty_simps:
  "read_fault db_empty = None" "write_fault db_empty = None" "coll db_empty name = []"
  by (simp_all add: db_empty_def coll_def)

text \<open>C4 on the empty working database.\<close>

theorem ensure_seed_products_seeds_once_witness:
  "read_fault db_empty = None \<and> write_fault db_empty = None \<and> coll db_empty ''product'' = [] \<and>
   (\<exists>d'. ensure_seed_products (Some db_empty) = (Inr (), Some d') \<and>
         length (coll d' ''product'') = 4)"
proof -
  note t = ensure_seed_products_seeds_once [OF db_empty_simps(1) db_empty_simps(2), of rt_example None]
  from t db_empty_simps(3) [of "''product''"]
  obtain d' where "ensure_seed_products (Some db_empty) = (Inr (), Some d')"
    "coll d' ''product'' =
       [(seed_items ! 0)(''_id'' \<mapsto> PObjectId 0), (seed_items ! 1)(''_id'' \<mapsto> PObjectId 1),
        (seed_items ! 2)(''_id'' \<mapsto> PObjectId 2), (seed_items ! 3)(''_id'' \<mapsto> PObjectId 3)]"
    by blast
  then have "\<exists>d'. ensure_seed_products (Some db_empty) = (Inr (), Some d') \<and>
         length (coll d' ''product'') = 4" by simp
  with db_empty_simps show ?thesis by simp
qed

lemma GET_api_products_state:
  "snd (GET_api_products rt st limit) = snd (ensure_seed_products st)"
proof (cases "list_products rt st limit")
  case (Pair r st')
  with list_products_state [of rt st limit] show ?thesis
    by (simp add: GET_api_products_def)
qed

text \<open>
  C7, amended: a request with \<open>limit = n\<close> for a positive \<open>n\<close> is answered with at
  most \<open>n\<close> products; with the limit omitted or 0, with at most 20; seeding runs first,
  and the listing is read from the state it leaves.
\<close>

theorem GET_api_products_limit:
  "(0 < n \<longrightarrow> n_products (fst (GET_api_products rt st (Some n))) \<le> nat n) \<and>
   n_products (fst (GET_api_products rt st None)) \<le> 20 \<and>
   n_products (fst (GET_api_products rt st (Some 0))) \<le> 20 \<and>
   snd (GET_api_products rt st limit) = snd (ensure_seed_products st) \<and>
   (\<forall>ps st'. list_products rt st limit = (Inr ps, st') \<longrightarrow>
      (\<exists>d'. st' = Some d' \<and> ensure_seed_products st = (Inr (), st') \<and>
         serialize_all rt (take (nat (limit_or_20 limit)) (coll d' ''product'')) = Inr ps))"
proof (intro conjI impI allI)
  assume "0 < n"
  with n_products_GET [of rt st "Some n"]
  show "n_products (fst (GET_api_products rt st (Some n))) \<le> nat n"
    by (simp add: limit_or_20_def)
next
  from n_products_GET [of rt st None]
  show "n_products (fst (GET_api_products rt st None)) \<le> 20"
    by (simp add: limit_or_20_def)
next
  from n_products_GET [of rt st "Some 0"]
  show "n_products (fst (GET_api_products rt st (Some 0))) \<le> 20"
    by (simp add: limit_or_20_def)
next
  show "snd (GET_api_products rt st limit) = snd (ensure_seed_products st)"
    by (rule GET_api_products_state)
next
  fix ps st'
  assume "list_products rt st limit = (Inr ps, st')"
  from list_products_Inr [OF this]
  show "\<exists>d'. st' = Some d' \<and> ensure_seed_products st = (Inr (), st') \<and>
         serialize_all rt (take (nat (limit_or_20 limit)) (coll d' ''product'')) = Inr ps"
    by blast
qed

text \<open>C7, amended, at \<open>limit = 2\<close> on the empty working database.\<close>

theorem GET_api_products_limit_witness:
  "(0::int) < 2 \<and> n_products (fst (GET_api_products rt_example (Some db_empty) (Some 2))) \<le> 2"
proof -
  have p: "(0::int) < 2" by simp
  from GET_api_products_limit [of 2 rt_example "Some db_empty" None]
  have "(0::int) < 2 \<longrightarrow>
        n_products (fst (GET_api_products rt_example (Some db_empty) (Some 2))) \<le> nat 2"
    by (rule conjunct1)
  with p show ?thesis by simp
qed

lemma list_products_seeded_empty:
  assumes "read_fault d = None" and "write_fault d = None" and "coll d ''product'' = []"
    and "4 \<le> limit_or_20 limit"
  shows "\<exists>ps d'. list_products rt (Some d) limit = (Inr ps, Some d') \<and> length ps = 4"
proof -
  from ensure_seed_products_fresh [OF assms(1,2,3)] obtain d' where d':
    "ensure_seed_products (Some d) = (Inr (), Some d')" "read_fault d' = None"
    "coll d' ''product'' =
       [(seed_items ! 0)(''_id'' \<mapsto> PObjectId 0), (seed_items ! 1)(''_id'' \<mapsto> PObjectId 1),
        (seed_items ! 2)(''_id'' \<mapsto> PObjectId 2), (seed_items ! 3)(''_id'' \<mapsto> PObjectId 3)]"
    by blast
  have wf: "list_all (well_formed rt) (coll d' ''product'')"
    unfolding d'(3) using seed_items_well_formed [of rt]
    by (simp add: seed_items_def well_formed_def field_ok_def price_ok_def colors_ok_def)
  from assms(4) have tk: "take (nat (limit_or_20 limit)) (coll d' ''product'') = coll d' ''product''"
    by (simp add: d'(3))
  from serialize_all_well_formed [OF wf] obtain ps where
    ps: "serialize_all rt (coll d' ''product'') = Inr ps" by blast
  from serialize_all_length [OF ps] have "length ps = 4" by (simp add: d'(3))
  moreover have "list_products rt (Some d) limit = (Inr ps, Some d')"
    using d'(1,2) ps tk by (simp add: list_products_def get_documents_def)
  ultimately show ?thesis by blast
qed

text \<open>
  C7, as the spec has it: a request with \<open>limit = n\<close> is answered with at most \<open>n\<close>
  products. With \<open>limit = 0\<close> on an empty working store the answer holds the 4 seed
  products.
\<close>

theorem GET_api_products_limit_zero_returns_four:
  "n_products (fst (GET_api_products rt_example (Some db_empty) (Some 0))) = 4"
proof -
  have "(4::int) \<le> limit_or_20 (Some 0)" by (simp add: limit_or_20_def)
  from list_products_seeded_empty [OF db_empty_simps(1) db_empty_simps(2) db_empty_simps(3) this]
  obtain ps d' where "list_products rt_example (Some db_empty) (Some 0) = (Inr ps, Some d')"
    "length ps = 4" by blast
  then show ?thesis by (simp add: GET_api_products_def)
qed

text \<open>
  C9: with \<open>limit\<close> set to 0 the handler fetches with the default 20, as if the limit
  were omitted, and never answers with an empty listing.
\<close>

theorem list_products_limit_zero_is_default:
  "list_products rt st (Some 0) = list_products rt st None \<and>
   limit_or_20 (Some 0) = 20 \<and>
   fst (list_products rt st (Some 0)) \<noteq> Inr []"
proof (intro conjI)
  have e: "limit_or_20 (Some 0) = limit_or_20 None" by (simp add: limit_or_20_def)
  show "list_products rt st (Some 0) = list_products rt st None"
    unfolding list_products_def e by (rule refl)
  show "limit_or_20 (Some 0) = 20" by (simp add: limit_or_20_def)
  have "0 < limit_or_20 (Some 0)" by (simp add: limit_or_20_def)
  then show "fst (list_products rt st (Some 0)) \<noteq> Inr []"
    by (rule list_products_not_empty)
qed

lemma db_down_simps: "read_fault db_down = Some ''connection refused''"
  by (simp add: db_down_def)

text \<open>
  C3, where the code fails it: with a database whose reads fail, \<open>count_documents\<close>
  raises inside \<open>ensure_seed_products\<close>, before the \<open>try\<close>; the exception leaves
  \<open>list_products\<close> as it is and the answer is the server's plain 500, with no
  \<open>detail\<close>. With no database at all the failure is inside the \<open>try\<close> and is
  translated.
\<close>

theorem GET_api_products_seeding_failure_propagates:
  "list_products rt_example (Some db_down) None =
     (Inl (StoreReadError ''connection refused''), Some db_down) \<and>
   GET_api_products rt_example (Some db_down) None = (InternalServerError500, Some db_down) \<and>
   GET_api_products rt_example None None = (ErrorDetail 500 StoreUnavailable, None)"
  by (simp add: GET_api_products_def list_products_def
      ensure_seed_products_read_fault [OF db_down_simps] ensure_seed_products_None
      get_documents_def)

text \<open>
  C1, as the spec has it: a POST whose payload has a price below 0 is answered with
  status 400. The answer to \<open>price = -5\<close> is 422.
\<close>

theorem POST_negative_price_is_422:
  "fst (POST_api_products rt_example ProductSchema_spec (Some db_empty)
          (tee\<lparr>price := Float (- 5)\<rparr>)) = RequestValidation422 \<and>
   status_code (fst (POST_api_products rt_example ProductSchema_spec (Some db_empty)
          (tee\<lparr>price := Float (- 5)\<rparr>))) \<noteq> 400"
  by (simp add: POST_api_products_def)

text \<open>
  C1, amended: a POST whose payload has a price below 0 fails the validation of
  \<open>ProductCreate\<close> and is answered with status 422, before the handler runs; no
  document is inserted and the store is unchanged.
\<close>

theorem POST_negative_price_rejected:
  "float_lt0 (price body) \<Longrightarrow>
   POST_api_products rt schema st body = (RequestValidation422, st)"
  by (simp add: POST_api_products_def float_lt0_not_ge0)

text \<open>C1, amended, at \<open>price = -5\<close>.\<close>

theorem POST_negative_price_rejected_witness:
  "float_lt0 (price (tee\<lparr>price := Float (- 5)\<rparr>)) \<and>
   POST_api_products rt_example ProductSchema_spec (Some db_empty) (tee\<lparr>price := Float (- 5)\<rparr>)
     = (RequestValidation422, Some db_empty)"
proof -
  have h: "float_lt0 (price (tee\<lparr>price := Float (- 5)\<rparr>))" by simp
  from POST_negative_price_rejected [OF h] h show ?thesis by simp
qed

section \<open>The diagnostic endpoint never fails\<close>

lemma test_database_None:
  "test_database env None =
     \<lparr>backend = check_mark @ '' Running'',
      database = warning_sign @ ''  Available but not initialized'',
      database_url = Some (if getenv_set env ''DATABASE_URL'' then check_mark @ '' Set''
                           else cross_mark @ '' Not Set''),
      database_name = Some (if getenv_set env ''DATABASE_NAME'' then check_mark @ '' Set''
                           else cross_mark @ '' Not Set''),
      connection_status = ''Not Connected'',
      collections = []\<rparr>"
  by (simp add: test_database_def)

lemma test_database_collections:
  "length (collections (test_database env st)) \<le> 10"
  by (simp add: test_database_def Let_def split: option.splits attr.splits sum.splits)

lemma test_database_backend:
  "backend (test_database env st) = check_mark @ '' Running''"
  by (simp add: test_database_def Let_def split: option.splits attr.splits sum.splits)

lemma test_database_attr_raises:
  "name_attr d = AttrRaises msg \<Longrightarrow>
   database (test_database env (Some d)) = cross_mark @ '' Error: '' @ take 50 msg \<and>
   connection_status (test_database env (Some d)) = ''Not Connected'' \<and>
   collections (test_database env (Some d)) = []"
  by (simp add: test_database_def Let_def)

lemma test_database_list_raises:
  "\<forall>m. name_attr d \<noteq> AttrRaises m \<Longrightarrow> read_fault d = Some msg \<Longrightarrow>
   database (test_database env (Some d)) =
     warning_sign @ ''  Connected but Error: '' @ take 50 msg \<and>
   connection_status (test_database env (Some d)) = ''Connected'' \<and>
   collections (test_database env (Some d)) = []"
  by (simp add: test_database_def Let_def list_collection_names_def split: attr.splits)

lemma test_database_working:
  "\<forall>m. name_attr d \<noteq> AttrRaises m \<Longrightarrow> read_fault d = None \<Longrightarrow>
   database (test_database env (Some d)) = check_mark @ '' Connected & Working'' \<and>
   connection_status (test_database env (Some d)) = ''Connected'' \<and>
   collections (test_database env (Some d)) = take 10 (map fst (colls d))"
  by (simp add: test_database_def Let_def list_collection_names_def split: attr.splits)

text \<open>
  C8: the diagnostic endpoint is total. In every state of the store connection, with no
  database, with one that works, with one whose \<open>list_collection_names\<close> raises or
  whose attribute \<open>name\<close> raises, the handler returns its report and the answer has
  status 200; an error shows only in the field \<open>database\<close>, cut to 50 characters,
  and the field \<open>collections\<close> lists at most 10 names.
\<close>

theorem test_database_total:
  "GET_test env st = Response200 (test_database env st) \<and>
   status_code (GET_test env st) = 200 \<and>
   length (collections (test_database env st)) \<le> 10 \<and>
   backend (test_database env st) = check_mark @ '' Running'' \<and>
   (st = None \<longrightarrow>
      database (test_database env st) = warning_sign @ ''  Available but not initialized'' \<and>
      connection_status (test_database env st) = ''Not Connected'' \<and>
      collections (test_database env st) = []) \<and>
   (\<forall>d msg. st = Some d \<and> name_attr d = AttrRaises msg \<longrightarrow>
      database (test_database env st) = cross_mark @ '' Error: '' @ take 50 msg \<and>
      connection_status (test_database env st) = ''Not Connected'' \<and>
      collections (test_database env st) = []) \<and>
   (\<forall>d msg. st = Some d \<and> (\<forall>m. name_attr d \<noteq> AttrRaises m) \<and> read_fault d = Some msg \<longrightarrow>
      database (test_database env st) =
        warning_sign @ ''  Connected but Error: '' @ take 50 msg \<and>
      connection_status (test_database env st) = ''Connected'' \<and>
      collections (test_database env st) = []) \<and>
   (\<forall>d. st = Some d \<and> (\<forall>m. name_attr d \<noteq> AttrRaises m) \<and> read_fault d = None \<longrightarrow>
      database (test_database env st) = check_mark @ '' Connected & Working'' \<and>
      connection_status (test_database env st) = ''Connected'' \<and>
      collections (test_database env st) = take 10 (map fst (colls d)))"
proof (intro conjI impI allI)
  show "GET_test env st = Response200 (test_database env st)"
    by (simp add: GET_test_def)
  then show "status_code (GET_test env st) = 200" by simp
  show "length (collections (test_database env st)) \<le> 10"
    by (rule test_database_collections)
  show "backend (test_database env st) = check_mark @ '' Running''"
    by (rule test_database_backend)
next
  assume "st = None"
  then show "database (test_database env st) =
      warning_sign @ ''  Available but not initialized''"
    and "connection_status (test_database env st) = ''Not Connected''"
    and "collections (test_database env st) = []"
    by (simp_all add: test_database_None)
next
  fix d msg assume h: "st = Some d \<and> name_attr d = AttrRaises msg"
  then have a: "name_attr d = AttrRaises msg" and s: "st = Some d" by simp_all
  from test_database_attr_raises [OF a, of env] s
  show "database (test_database env st) = cross_mark @ '' Error: '' @ take 50 msg"
    and "connection_status (test_database env st) = ''Not Connected''"
    and "collections (test_database env st) = []"
    by simp_all
next
  fix d msg
  assume h: "st = Some d \<and> (\<forall>m. name_attr d \<noteq> AttrRaises m) \<and> read_fault d = Some msg"
  then have a: "\<forall>m. name_attr d \<noteq> AttrRaises m" and r: "read_fault d = Some msg"
    and s: "st = Some d" by simp_all
  from test_database_list_raises [OF a r, of env] s
  show "database (test_database env st) =
        warning_sign @ ''  Connected but Error: '' @ take 50 msg"
    and "connection_status (test_database env st) = ''Connected''"
    and "collections (test_database env st) = []"
    by simp_all
next
  fix d
  assume h: "st = Some d \<and> (\<forall>m. name_attr d \<noteq> AttrRaises m) \<and> read_fault d = None"
  then have a: "\<forall>m. name_attr d \<noteq> AttrRaises m" and r: "read_fault d = None"
    and s: "st = Some d" by simp_all
  from test_database_working [OF a r, of env] s
  show "database (test_database env st) = check_mark @ '' Connected & Working''"
    and "connection_status (test_database env st) = ''Connected''"
    and "collections (test_database env st) = take 10 (map fst (colls d))"
    by simp_all
qed

text \<open>C8 with no database, and with the database whose reads fail.\<close>

theorem test_database_total_witness:
  "status_code (GET_test Map.empty None) = 200 \<and>
   database (test_database Map.empty None) = warning_sign @ ''  Available but not initialized'' \<and>
   database (test_database Map.empty (Some db_down)) =
     warning_sign @ ''  Connected but Error: connection refused''"
proof -
  note a = test_database_total [of Map.empty None]
  note b = test_database_total [of Map.empty "Some db_down"]
  from a have 1: "status_code (GET_test Map.empty None) = 200" by (elim conjE)
  from a have 2: "database (test_database Map.empty None) =
      warning_sign @ ''  Available but not initialized''" by simp
  have n: "\<forall>m. name_attr db_down \<noteq> AttrRaises m" by (simp add: db_down_def db_empty_def)
  have r: "read_fault db_down = Some ''connection refused''" by (simp add: db_down_def)
  from b n r have 3: "database (test_database Map.empty (Some db_down)) =
     warning_sign @ ''  Connected but Error: '' @ take 50 ''connection refused''"
    by blast
  from 1 2 3 show ?thesis by simp
qed

section \<open>Creating a product and reading it back\<close>

lemma hex_val_digits:
  "list_all (\<lambda>k. hex_val (digit_char k) = Some k) [0..<16]"
  by code_simp

lemma hex_val_digit_char: "k < 16 \<Longrightarrow> hex_val (digit_char k) = Some k"
  using hex_val_digits by (simp add: list_all_iff)

lemma length_hex_width: "length (hex_width w n) = w"
  by (induction w arbitrary: n) simp_all

lemma unhex_append:
  "unhex acc (xs @ ys) = (case unhex acc xs of None \<Rightarrow> None | Some a \<Rightarrow> unhex a ys)"
  by (induction xs arbitrary: acc) (simp_all split: option.splits)

lemma unhex_hex_width:
  "unhex acc (hex_width w n) = Some (acc * 16 ^ w + n mod 16 ^ w)"
proof (induction w arbitrary: n acc)
  case 0
  then show ?case by simp
next
  case (Suc w)
  have m: "n mod (16 * 16 ^ w) = 16 * (n div 16 mod 16 ^ w) + n mod 16"
    by (rule mod_mult2_eq)
  show ?case
    by (simp add: unhex_append Suc.IH hex_val_digit_char m algebra_simps)
qed

lemma ObjectId_oid_str: "n < 16 ^ 24 \<Longrightarrow> ObjectId (oid_str n) = Inr (PObjectId n)"
  by (simp add: ObjectId_def oid_str_def length_hex_width unhex_hex_width)

lemma oid_str_not_empty: "oid_str n \<noteq> []"
proof
  assume "oid_str n = []"
  then have "length (oid_str n) = 0" by simp
  then show False by (simp add: oid_str_def length_hex_width)
qed

lemma fresh_fold_mono:
  "m \<le> fold (\<lambda>doc m. case doc ''_id'' of Some (PObjectId n) \<Rightarrow> max m (Suc n) | _ \<Rightarrow> m) docs m"
proof (induction docs arbitrary: m)
  case Nil
  then show ?case by simp
next
  case (Cons d ds)
  let ?step = "\<lambda>doc m. case doc ''_id'' of Some (PObjectId n) \<Rightarrow> max m (Suc n) | _ \<Rightarrow> m"
  have "m \<le> ?step d m" by (simp split: option.splits pyval.splits)
  also have "\<dots> \<le> fold ?step ds (?step d m)" by (rule Cons.IH)
  finally show ?case by simp
qed

lemma fresh_fold_bound:
  "x \<in> set docs \<Longrightarrow> x ''_id'' = Some (PObjectId n) \<Longrightarrow>
   n < fold (\<lambda>doc m. case doc ''_id'' of Some (PObjectId n) \<Rightarrow> max m (Suc n) | _ \<Rightarrow> m) docs m"
proof (induction docs arbitrary: m)
  case Nil
  then show ?case by simp
next
  case (Cons d ds)
  let ?step = "\<lambda>doc m. case doc ''_id'' of Some (PObjectId n) \<Rightarrow> max m (Suc n) | _ \<Rightarrow> m"
  show ?case
  proof (cases "x = d")
    case True
    with Cons.prems have "n < ?step d m" by simp
    also have "\<dots> \<le> fold ?step ds (?step d m)" by (rule fresh_fold_mono)
    finally show ?thesis by simp
  next
    case False
    with Cons.prems have "x \<in> set ds" by simp
    from Cons.IH [OF this Cons.prems(2)] show ?thesis by simp
  qed
qed

lemma fresh_oid_unused:
  "x \<in> set docs \<Longrightarrow> x ''_id'' \<noteq> Some (PObjectId (fresh_oid docs))"
proof
  assume "x \<in> set docs" and "x ''_id'' = Some (PObjectId (fresh_oid docs))"
  from fresh_fold_bound [OF this, of 0] show False by (simp add: fresh_oid_def)
qed

lemma find_app:
  "find P (xs @ ys) = (case find P xs of None \<Rightarrow> find P ys | Some x \<Rightarrow> Some x)"
  by (induction xs) simp_all

lemma find_one_inserted:
  assumes "read_fault d = None"
  shows "find_one (store_insert d name (data(''_id'' \<mapsto> PObjectId (fresh_oid (coll d name)))))
           name (PObjectId (fresh_oid (coll d name)))
         = Inr (Some (data(''_id'' \<mapsto> PObjectId (fresh_oid (coll d name)))))"
proof -
  have "find (\<lambda>doc. doc ''_id'' = Some (PObjectId (fresh_oid (coll d name)))) (coll d name) = None"
    by (simp add: find_None_iff fresh_oid_unused)
  then show ?thesis
    using assms by (simp add: find_one_def coll_store_insert faults_store_insert find_app)
qed

lemma serialize_model_dump:
  assumes "float_ge0 (price payload)"
  shows "serialize_product rt ((model_dump payload)(''_id'' \<mapsto> PObjectId n)) =
     Inr \<lparr>title = title payload, description = description payload, price = price payload,
          category = category payload, in_stock = in_stock payload, image' = image' payload,
          colors = Some (case colors payload of None \<Rightarrow> [] | Some cs \<Rightarrow> cs),
          id' = oid_str n\<rparr>"
proof -
  have c: "py_or (case colors payload of None \<Rightarrow> PNone | Some cs \<Rightarrow> PList (map PStr cs))
             (PList []) =
           PList (map PStr (case colors payload of None \<Rightarrow> [] | Some cs \<Rightarrow> cs))"
    by (cases "colors payload") (auto simp: py_or_def)
  show ?thesis
    unfolding serialize_product_Inr_iff
    using assms c
    by (simp add: model_dump_def get_def get_default_def)
qed

lemma create_product_try_working:
  assumes "float_ge0 (price payload)"
    and "schema (title payload) (description payload) (price payload) (category payload)
           (in_stock payload) = None"
    and "read_fault d = None" and "write_fault d = None"
    and "fresh_oid (coll d ''product'') < 16 ^ 24"
  shows "create_product_try rt schema (Some d) payload =
     (Inr \<lparr>title = title payload, description = description payload, price = price payload,
           category = category payload, in_stock = in_stock payload, image' = image' payload,
           colors = Some (case colors payload of None \<Rightarrow> [] | Some cs \<Rightarrow> cs),
           id' = oid_str (fresh_oid (coll d ''product''))\<rparr>,
      Some (store_insert d ''product''
              ((model_dump payload)(''_id'' \<mapsto> PObjectId (fresh_oid (coll d ''product''))))))"
  unfolding create_product_try_def
  by (simp add: assms(2) create_document_working [OF assms(4)] ObjectId_oid_str [OF assms(5)]
      find_one_inserted [OF assms(3)] serialize_model_dump [OF assms(1)])

lemma POST_api_products_working:
  assumes "float_ge0 (price payload)"
    and "schema (title payload) (description payload) (price payload) (category payload)
           (in_stock payload) = None"
    and "read_fault d = None" and "write_fault d = None"
    and "fresh_oid (coll d ''product'') < 16 ^ 24"
  shows "POST_api_products rt schema (Some d) payload =
     (Response200
        \<lparr>title = title payload, description = description payload, price = price payload,
         category = category payload, in_stock = in_stock payload, image' = image' payload,
         colors = Some (case colors payload of None \<Rightarrow> [] | Some cs \<Rightarrow> cs),
         id' = oid_str (fresh_oid (coll d ''product''))\<rparr>,
      Some (store_insert d ''product''
              ((model_dump payload)(''_id'' \<mapsto> PObjectId (fresh_oid (coll d ''product''))))))"
  by (simp add: POST_api_products_def create_product_def assms(1)
      create_product_try_working [where schema = schema and payload = payload, OF assms])

lemma listing_after_insert:
  assumes "read_fault d = None"
    and "serialize_product rt doc = Inr p"
    and "list_products rt (Some (store_insert d ''product'' doc)) limit = (Inr ps, st'')"
    and "length (coll d ''product'') < nat (limit_or_20 limit)"
  shows "ps ! length (coll d ''product'') = p"
proof -
  let ?d' = "store_insert d ''product'' doc"
  have ne: "coll ?d' ''product'' \<noteq> []" by (simp add: coll_store_insert)
  have rf: "read_fault ?d' = None" using assms(1) by (simp add: faults_store_insert)
  from list_products_Inr [OF assms(3)] obtain d'' where d'':
    "st'' = Some d''" "ensure_seed_products (Some ?d') = (Inr (), st'')"
    "serialize_all rt (take (nat (limit_or_20 limit)) (coll d'' ''product'')) = Inr ps"
    by blast
  from d''(1,2) ensure_seed_products_nonempty [OF rf ne] have "d'' = ?d'" by simp
  with d''(3) have sa: "serialize_all rt
      (take (nat (limit_or_20 limit)) (coll d ''product'' @ [doc])) = Inr ps"
    by (simp add: coll_store_insert)
  have i: "length (coll d ''product'') <
      length (take (nat (limit_or_20 limit)) (coll d ''product'' @ [doc]))"
    using assms(4) by simp
  from serialize_all_nth [OF sa i] assms(4)
  have "serialize_product rt doc = Inr (ps ! length (coll d ''product''))"
    by simp
  with assms(2) show ?thesis by simp
qed

text \<open>
  C5, amended: for every valid creation payload, on a connected, working store, the
  Product that POST \<open>/api/products\<close> returns, after inserting the payload and
  fetching the stored document again by its generated id, has the title, price, category
  and \<open>in_stock\<close> of the payload and its colors in the same order, a null
  \<open>colors\<close> coming back as the empty list; its id is not empty; and a GET listing
  that reaches the document serializes it to the same Product.
\<close>

theorem POST_then_GET_round_trip:
  assumes "float_ge0 (price payload)"
    and "schema (title payload) (description payload) (price payload) (category payload)
           (in_stock payload) = None"
    and "read_fault d = None" and "write_fault d = None"
    and "fresh_oid (coll d ''product'') < 16 ^ 24"
  shows "\<exists>p d'. POST_api_products rt schema (Some d) payload = (Response200 p, Some d') \<and>
           title p = title payload \<and> price p = price payload \<and>
           category p = category payload \<and> in_stock p = in_stock payload \<and>
           colors p = Some (case colors payload of None \<Rightarrow> [] | Some cs \<Rightarrow> cs) \<and>
           id' p \<noteq> [] \<and>
           coll d' ''product'' =
             coll d ''product'' @
               [(model_dump payload)(''_id'' \<mapsto> PObjectId (fresh_oid (coll d ''product'')))] \<and>
           serialize_product rt (last (coll d' ''product'')) = Inr p \<and>
           (\<forall>limit ps st''.
              list_products rt (Some d') limit = (Inr ps, st'') \<and>
              length (coll d ''product'') < nat (limit_or_20 limit) \<longrightarrow>
              ps ! length (coll d ''product'') = p)"
proof -
  let ?doc = "(model_dump payload)(''_id'' \<mapsto> PObjectId (fresh_oid (coll d ''product'')))"
  let ?d' = "store_insert d ''product'' ?doc"
  let ?p = "\<lparr>title = title payload, description = description payload, price = price payload,
         category = category payload, in_stock = in_stock payload, image' = image' payload,
         colors = Some (case colors payload of None \<Rightarrow> [] | Some cs \<Rightarrow> cs),
         id' = oid_str (fresh_oid (coll d ''product''))\<rparr>"
  have post: "POST_api_products rt schema (Some d) payload = (Response200 ?p, Some ?d')"
    by (rule POST_api_products_working [where schema = schema and payload = payload, OF assms])
  have ser: "serialize_product rt ?doc = Inr ?p"
    by (rule serialize_model_dump [OF assms(1)])
  have cl: "coll ?d' ''product'' = coll d ''product'' @ [?doc]"
    by (simp add: coll_store_insert)
  have lst: "serialize_product rt (last (coll ?d' ''product'')) = Inr ?p"
    using ser by (simp add: cl)
  have listing: "\<forall>limit ps st''.
              list_products rt (Some ?d') limit = (Inr ps, st'') \<and>
              length (coll d ''product'') < nat (limit_or_20 limit) \<longrightarrow>
              ps ! length (coll d ''product'') = ?p"
    using listing_after_insert [OF assms(3) ser] by blast
  show ?thesis
  proof (rule exI [of _ ?p], rule exI [of _ ?d'], intro conjI)
    show "POST_api_products rt schema (Some d) payload = (Response200 ?p, Some ?d')"
      by (rule post)
    show "id' ?p \<noteq> []" by (simp add: oid_str_not_empty)
    show "coll ?d' ''product'' = coll d ''product'' @ [?doc]" by (rule cl)
    show "serialize_product rt (last (coll ?d' ''product'')) = Inr ?p" by (rule lst)
    show "\<forall>limit ps st''.
              list_products rt (Some ?d') limit = (Inr ps, st'') \<and>
              length (coll d ''product'') < nat (limit_or_20 limit) \<longrightarrow>
              ps ! length (coll d ''product'') = ?p" by (rule listing)
  qed simp_all
qed

lemma tee_valid:
  "float_ge0 (price (tee\<lparr>colors := c\<rparr>))"
  "ProductSchema_spec (title (tee\<lparr>colors := c\<rparr>)) (description (tee\<lparr>colors := c\<rparr>))
     (price (tee\<lparr>colors := c\<rparr>)) (category (tee\<lparr>colors := c\<rparr>))
     (in_stock (tee\<lparr>colors := c\<rparr>)) = None"
  by (simp_all add: tee_def ProductSchema_spec_def)

lemma db_empty_fresh: "fresh_oid (coll db_empty ''product'') < 16 ^ 24"
  by (simp add: db_empty_simps fresh_oid_def)

text \<open>
  C5, as the spec has it: the returned Product has the same colors as the payload. For a
  payload with \<open>colors: null\<close> the returned colors are the empty list.
\<close>

theorem POST_null_colors_returns_empty_list:
  "colors (tee\<lparr>colors := None\<rparr>) = None \<and>
   fst (POST_api_products rt_example ProductSchema_spec (Some db_empty) (tee\<lparr>colors := None\<rparr>)) =
     Response200
       \<lparr>title = ''Tee'', description = None, price = Float 25, category = ''shirts'',
        in_stock = True, image' = None, colors = Some [], id' = oid_str 0\<rparr>"
  using POST_api_products_working [where schema = ProductSchema_spec
      and payload = "tee\<lparr>colors := None\<rparr>" and d = db_empty and rt = rt_example,
      OF tee_valid(1) tee_valid(2) db_empty_simps(1) db_empty_simps(2) db_empty_fresh]
  by (simp add: tee_def db_empty_simps fresh_oid_def)

text \<open>C5, amended, for the payload \<open>tee\<close> on the empty working database.\<close>

theorem POST_then_GET_round_trip_witness:
  "float_ge0 (price tee) \<and> read_fault db_empty = None \<and> write_fault db_empty = None \<and>
   (\<exists>p d'. POST_api_products rt_example ProductSchema_spec (Some db_empty) tee =
              (Response200 p, Some d') \<and>
           title p = ''Tee'' \<and> price p = Float 25 \<and> category p = ''shirts'' \<and>
           in_stock p = True \<and> colors p = Some [''#000000'', ''#FFFFFF''])"
proof -
  have t: "tee\<lparr>colors := colors tee\<rparr> = tee" by simp
  note v = tee_valid [of "colors tee", unfolded t]
  from POST_then_GET_round_trip [where schema = ProductSchema_spec and payload = tee and d = db_empty
      and rt = rt_example, OF v(1) v(2) db_empty_simps(1) db_empty_simps(2) db_empty_fresh]
  obtain p d' where
    "POST_api_products rt_example ProductSchema_spec (Some db_empty) tee =
       (Response200 p, Some d')"
    "title p = title tee" "price p = price tee" "category p = category tee"
    "in_stock p = in_stock tee"
    "colors p = Some (case colors tee of None \<Rightarrow> [] | Some cs \<Rightarrow> cs)"
    by blast
  then have "\<exists>p d'. POST_api_products rt_example ProductSchema_spec (Some db_empty) tee =
              (Response200 p, Some d') \<and>
           title p = ''Tee'' \<and> price p = Float 25 \<and> category p = ''shirts'' \<and>
           in_stock p = True \<and> colors p = Some [''#000000'', ''#FFFFFF'']"
    by (intro exI [of _ p] exI [of _ d']) (simp add: tee_def)
  with v(1) db_empty_simps(1) db_empty_simps(2) show ?thesis by simp
qed

end
